theory Spec2Isabelle
  imports Main "HOL-Library.Word"
begin

section \<open>JavaScript strings\<close>

text \<open>
  A JavaScript string is a sequence of 16-bit UTF-16 code units; \<open>length\<close>, \<open>trim\<close>,
  \<open>split\<close> and the regular expressions of the source (none has the \<open>u\<close> flag) all work
  on code units. ASCII literals are written through \<open>utf16\<close>.
\<close>

type_synonym jsstring = "16 word list"

definition utf16 :: "string \<Rightarrow> jsstring" where
  "utf16 s = map of_char s"

text \<open>
  The code units that \<open>String.prototype.trim\<close> removes and that \<open>\s\<close> matches:
  ECMAScript's WhiteSpace (TAB, VT, FF, SP, NBSP, ZWNBSP and the Unicode space
  separators) and LineTerminator (LF, CR, LS, PS).
\<close>

definition is_ws :: "16 word \<Rightarrow> bool" where
  "is_ws c \<longleftrightarrow>
     c = 0x09 \<or> c = 0x0A \<or> c = 0x0B \<or> c = 0x0C \<or> c = 0x0D \<or> c = 0x20 \<or>
     c = 0xA0 \<or> c = 0x1680 \<or> (0x2000 \<le> c \<and> c \<le> 0x200A) \<or>
     c = 0x2028 \<or> c = 0x2029 \<or> c = 0x202F \<or> c = 0x205F \<or> c = 0x3000 \<or>
     c = 0xFEFF"

text \<open>\<open>s.trim()\<close>\<close>

definition trim :: "jsstring \<Rightarrow> jsstring" where
  "trim s = rev (dropWhile is_ws (rev (dropWhile is_ws s)))"

text \<open>
  \<open>s.split(sep)\<close> for a one-unit separator: one piece more than there are
  separators, so the empty string gives one empty piece.
\<close>

fun split_on :: "16 word \<Rightarrow> jsstring \<Rightarrow> jsstring list" where
  "split_on sep [] = [[]]"
| "split_on sep (c # cs) =
     (if c = sep then [] # split_on sep cs
      else (case split_on sep cs of
              [] \<Rightarrow> [[c]]
            | l # ls \<Rightarrow> (c # l) # ls))"

text \<open>\<open>xs.join(sep)\<close> for an array of strings\<close>

fun join_with :: "jsstring \<Rightarrow> jsstring list \<Rightarrow> jsstring" where
  "join_with sep [] = []"
| "join_with sep [x] = x"
| "join_with sep (x # y # ys) = x @ sep @ join_with sep (y # ys)"

section \<open>The sanitization pipeline of \<open>summarizeWithGroq\<close> and \<open>summarizeWithGemini\<close>\<close>

text \<open>
  The character class of \<^verbatim>\<open>/^[\<bullet>\-\*\d+\.\)]\s*/\<close>: the bullet U+2022, \<open>-\<close>, \<open>*\<close>,
  an ASCII digit, \<open>+\<close>, \<open>.\<close> and \<open>)\<close>. Inside a class \<open>\d+\.\<close> is three alternatives,
  so the class matches one code unit.
\<close>

definition is_marker :: "16 word \<Rightarrow> bool" where
  "is_marker c \<longleftrightarrow>
     c = 0x2022 \<or> c = 0x2D \<or> c = 0x2A \<or> (0x30 \<le> c \<and> c \<le> 0x39) \<or>
     c = 0x2B \<or> c = 0x2E \<or> c = 0x29"

text \<open>\<^verbatim>\<open>line.replace(/^[...]\s*/, '')\<close>: one marker unit and the white space after it.\<close>

fun strip_marker :: "jsstring \<Rightarrow> jsstring" where
  "strip_marker [] = []"
| "strip_marker (c # cs) = (if is_marker c then dropWhile is_ws cs else c # cs)"

text \<open>\<^verbatim>\<open>/[.!?]$/.test(s)\<close>: without the \<open>m\<close> flag \<open>$\<close> is the end of the string.\<close>

definition ends_with_punctuation :: "jsstring \<Rightarrow> bool" where
  "ends_with_punctuation s \<longleftrightarrow>
     s \<noteq> [] \<and> (last s = 0x2E \<or> last s = 0x21 \<or> last s = 0x3F)"

text \<open>The first four stages of \<open>const points = generatedText.split(...)...\<close>.\<close>

definition stripped_lines :: "jsstring \<Rightarrow> jsstring list" where
  "stripped_lines generatedText =
     map (\<lambda>line. trim (strip_marker line))
       (filter (\<lambda>line. length line > 0)
         (map (\<lambda>line. trim line) (split_on 0x0A generatedText)))"

text \<open>\<open>const points\<close>: the stripped lines that pass \<open>line.length > 20\<close>.\<close>

definition parse_points :: "jsstring \<Rightarrow> jsstring list" where
  "parse_points generatedText =
     filter (\<lambda>line. length line > 20) (stripped_lines generatedText)"

text \<open>
  The whole pipeline, the same text in both providers: \<open>points\<close>, with its last
  element popped when that element does not end in \<open>.\<close>, \<open>!\<close> or \<open>?\<close>.
\<close>

definition sanitize :: "jsstring \<Rightarrow> jsstring list" where
  "sanitize generatedText =
     (let points = parse_points generatedText in
      if length points > 0 then
        (let lastPoint = last points in
         if \<not> ends_with_punctuation lastPoint then butlast points else points)
      else points)"

section \<open>Parsed JSON and the JavaScript operations applied to it\<close>

text \<open>
  A value returned by \<open>JSON.parse\<close> or \<open>response.json()\<close>. A number is given by the
  two things this code can observe of it: whether it is zero (then it is falsy) and
  the text \<open>ToString\<close> gives it. An object is the list of its own properties; the
  first binding of a name is the property's value. \<open>undefined\<close> is \<open>None\<close> of
  \<open>json option\<close>.
\<close>

datatype json =
    JNull
  | JBool bool
  | JNum bool jsstring
  | JStr jsstring
  | JArr "json list"
  | JObj "(jsstring \<times> json) list"

fun truthy :: "json \<Rightarrow> bool" where
  "truthy JNull = False"
| "truthy (JBool b) = b"
| "truthy (JNum is_zero t) = (\<not> is_zero)"
| "truthy (JStr s) = (s \<noteq> [])"
| "truthy (JArr xs) = True"
| "truthy (JObj kv) = True"

definition truthy_opt :: "json option \<Rightarrow> bool" where
  "truthy_opt v = (case v of None \<Rightarrow> False | Some x \<Rightarrow> truthy x)"

text \<open>\<open>v[0]\<close> for a value that is not \<open>null\<close>.\<close>

fun get_index0 :: "json \<Rightarrow> json option" where
  "get_index0 (JArr xs) = (case xs of [] \<Rightarrow> None | x # _ \<Rightarrow> Some x)"
| "get_index0 (JStr s) = (case s of [] \<Rightarrow> None | c # _ \<Rightarrow> Some (JStr [c]))"
| "get_index0 (JObj kv) = map_of kv (utf16 ''0'')"
| "get_index0 _ = None"

text \<open>
  \<open>v.name\<close> for a value that is not \<open>null\<close> and one of the names read by this code
  (\<open>choices\<close>, \<open>message\<close>, \<open>content\<close>, \<open>candidates\<close>, \<open>parts\<close>, \<open>text\<close>, \<open>error\<close>):
  none of them is a built-in property of a string, an array, a number or a boolean.
\<close>

fun get_prop :: "json \<Rightarrow> jsstring \<Rightarrow> json option" where
  "get_prop (JObj kv) name = map_of kv name"
| "get_prop _ name = None"

text \<open>\<open>v?.[0]\<close> and \<open>v?.name\<close>: \<open>undefined\<close> when \<open>v\<close> is \<open>undefined\<close> or \<open>null\<close>.\<close>

definition optional_index0 :: "json option \<Rightarrow> json option" where
  "optional_index0 v =
     (case v of None \<Rightarrow> None | Some JNull \<Rightarrow> None | Some x \<Rightarrow> get_index0 x)"

definition optional_prop :: "json option \<Rightarrow> jsstring \<Rightarrow> json option" where
  "optional_prop v name =
     (case v of None \<Rightarrow> None | Some JNull \<Rightarrow> None | Some x \<Rightarrow> get_prop x name)"

text \<open>
  \<open>ToString\<close>; \<open>None\<close> is the TypeError of an object whose own \<open>toString\<close> property
  hides the inherited method. An array is its elements joined by commas, \<open>null\<close>
  elements as the empty string.
\<close>

fun js_to_string :: "json \<Rightarrow> jsstring option" where
  "js_to_string JNull = Some (utf16 ''null'')"
| "js_to_string (JBool b) = Some (if b then utf16 ''true'' else utf16 ''false'')"
| "js_to_string (JNum is_zero t) = Some t"
| "js_to_string (JStr s) = Some s"
| "js_to_string (JArr xs) =
     map_option (join_with (utf16 '',''))
       (those (map (\<lambda>x. if x = JNull then Some [] else js_to_string x) xs))"
| "js_to_string (JObj kv) =
     (if utf16 ''toString'' \<in> fst ` set kv then None else Some (utf16 ''[object Object]''))"

section \<open>HTTP exchanges\<close>

text \<open>
  What \<open>await fetch(...)\<close> gives: a rejection, or a response with its status, its
  body as text (\<open>response.text()\<close>) and the body parsed (\<open>response.json()\<close>,
  \<open>JSON.parse\<close>; \<open>None\<close> when the body is not JSON and they throw). A connection
  lost while the body is read counts as a rejection.
\<close>

datatype fetch_result =
    FetchRejected
  | Response (status: nat) (body_text: jsstring) (body_json: "json option")

text \<open>\<open>response.ok\<close>\<close>

definition ok :: "nat \<Rightarrow> bool" where
  "ok st \<longleftrightarrow> 200 \<le> st \<and> st \<le> 299"

datatype error =
    GroqApiError nat jsstring
  | NoTextGroq
  | GeminiApiError nat "jsstring option"
  | NoTextGemini
  | ApiKeyRequired
  | TranslationFailed
  | TypeError
  | SyntaxError
  | URIError
  | NetworkError
  | HttpError nat

section \<open>The provider clients of \<open>AISummarizer\<close>\<close>

record ai_summarizer =
  groqApiKey :: "jsstring option"
  geminiApiKey :: "jsstring option"

datatype provider = Groq | Gemini

text \<open>
  The network as the summarizer meets it: the answer to the one request a provider
  client sends, which is determined by its truncated text and title.
\<close>

record network =
  groq_fetch :: "jsstring \<Rightarrow> jsstring \<Rightarrow> fetch_result"
  gemini_fetch :: "jsstring \<Rightarrow> jsstring \<Rightarrow> fetch_result"

definition isGroqAvailable :: "ai_summarizer \<Rightarrow> bool" where
  "isGroqAvailable s = (case groqApiKey s of None \<Rightarrow> False | Some k \<Rightarrow> trim k \<noteq> [])"

definition isGeminiAvailable :: "ai_summarizer \<Rightarrow> bool" where
  "isGeminiAvailable s = (case geminiApiKey s of None \<Rightarrow> False | Some k \<Rightarrow> trim k \<noteq> [])"

text \<open>\<open>text.length > maxChars ? text.substring(0, maxChars) + '...' : text\<close>\<close>

definition truncatedText :: "jsstring \<Rightarrow> jsstring" where
  "truncatedText txt =
     (if length txt > 25000 then take 25000 txt @ utf16 ''...'' else txt)"

text \<open>
  The part of both clients after \<open>generatedText\<close> is read: a falsy value is the
  provider's "no text" error, a truthy value that is not a string has no \<open>split\<close>.
\<close>

definition points_of :: "error \<Rightarrow> json option \<Rightarrow> error + jsstring list" where
  "points_of no_text generatedText =
     (if \<not> truthy_opt generatedText then Inl no_text
      else (case generatedText of
              Some (JStr t) \<Rightarrow> Inr (sanitize t)
            | _ \<Rightarrow> Inl TypeError))"

text \<open>\<open>data.choices?.[0]?.message?.content\<close>\<close>

definition groq_generatedText :: "json \<Rightarrow> json option" where
  "groq_generatedText data =
     optional_prop (optional_prop (optional_index0 (get_prop data (utf16 ''choices'')))
       (utf16 ''message'')) (utf16 ''content'')"

definition summarizeWithGroq :: "network \<Rightarrow> jsstring \<Rightarrow> jsstring \<Rightarrow> error + jsstring list" where
  "summarizeWithGroq net txt title =
     (case groq_fetch net (truncatedText txt) title of
        FetchRejected \<Rightarrow> Inl NetworkError
      | Response st errorText parsed \<Rightarrow>
          if \<not> ok st then Inl (GroqApiError st errorText)
          else (case parsed of
                  None \<Rightarrow> Inl SyntaxError
                | Some JNull \<Rightarrow> Inl TypeError
                | Some data \<Rightarrow> points_of NoTextGroq (groq_generatedText data)))"

text \<open>\<open>data.candidates?.[0]?.content?.parts?.[0]?.text\<close>\<close>

definition gemini_generatedText :: "json \<Rightarrow> json option" where
  "gemini_generatedText data =
     optional_prop (optional_index0 (optional_prop (optional_prop
       (optional_index0 (get_prop data (utf16 ''candidates'')))
       (utf16 ''content'')) (utf16 ''parts''))) (utf16 ''text'')"

text \<open>
  What follows \<open>Gemini API error: <status>\<close> in the message of a failed request:
  \<open>errorData.error?.message\<close> when the body parses and that is truthy, and in the
  \<open>catch\<close> (the body is not JSON, is \<open>null\<close>, or the message has no string form) the
  first 200 units of a non-empty body.
\<close>

definition gemini_error_detail :: "jsstring \<Rightarrow> json option \<Rightarrow> jsstring option" where
  "gemini_error_detail errorText parsed =
     (let caught = (if errorText \<noteq> [] then Some (take 200 errorText) else None) in
      case parsed of
        None \<Rightarrow> caught
      | Some JNull \<Rightarrow> caught
      | Some errorData \<Rightarrow>
          (let m = optional_prop (get_prop errorData (utf16 ''error'')) (utf16 ''message'') in
           case m of
             None \<Rightarrow> None
           | Some v \<Rightarrow>
               if truthy v then (case js_to_string v of None \<Rightarrow> caught | Some t \<Rightarrow> Some t)
               else None))"

definition summarizeWithGemini :: "network \<Rightarrow> jsstring \<Rightarrow> jsstring \<Rightarrow> error + jsstring list" where
  "summarizeWithGemini net txt title =
     (case gemini_fetch net (truncatedText txt) title of
        FetchRejected \<Rightarrow> Inl NetworkError
      | Response st errorText parsed \<Rightarrow>
          if \<not> ok st then Inl (GeminiApiError st (gemini_error_detail errorText parsed))
          else (case parsed of
                  None \<Rightarrow> Inl SyntaxError
                | Some JNull \<Rightarrow> Inl TypeError
                | Some data \<Rightarrow> points_of NoTextGemini (gemini_generatedText data)))"

section \<open>The orchestrator: \<open>summarize\<close>\<close>

text \<open>
  The result comes with the providers requested, in order: each call of a provider
  client sends exactly one request.
\<close>

definition summarize_gemini ::
  "ai_summarizer \<Rightarrow> network \<Rightarrow> jsstring \<Rightarrow> jsstring \<Rightarrow> provider list
     \<Rightarrow> (error + jsstring list) \<times> provider list" where
  "summarize_gemini s net txt title calls =
     (if isGeminiAvailable s then
        (case summarizeWithGemini net txt title of
           Inr points \<Rightarrow> (Inr points, calls @ [Gemini])
         | Inl err \<Rightarrow> (Inl err, calls @ [Gemini]))
      else (Inl ApiKeyRequired, calls))"

definition summarize ::
  "ai_summarizer \<Rightarrow> network \<Rightarrow> jsstring \<Rightarrow> jsstring
     \<Rightarrow> (error + jsstring list) \<times> provider list" where
  "summarize s net txt title =
     (if isGroqAvailable s then
        (case summarizeWithGroq net txt title of
           Inr points \<Rightarrow> (Inr points, [Groq])
         | Inl err \<Rightarrow> summarize_gemini s net txt title [Groq])
      else summarize_gemini s net txt title [])"

section \<open>The translation client: \<open>translate\<close>\<close>

definition langMap :: "(jsstring \<times> jsstring) list" where
  "langMap =
     [(utf16 ''Hindi'', utf16 ''hi''), (utf16 ''English'', utf16 ''en''),
      (utf16 ''Spanish'', utf16 ''es''), (utf16 ''French'', utf16 ''fr''),
      (utf16 ''German'', utf16 ''de''), (utf16 ''Italian'', utf16 ''it''),
      (utf16 ''Portuguese'', utf16 ''pt''), (utf16 ''Russian'', utf16 ''ru''),
      (utf16 ''Japanese'', utf16 ''ja''), (utf16 ''Korean'', utf16 ''ko''),
      (utf16 ''Chinese'', utf16 ''zh-CN'')]"

text \<open>
  The names \<open>langMap\<close> inherits from \<open>Object.prototype\<close>. Each is a function or, for
  \<open>__proto__\<close>, the prototype itself: a truthy value that is not a code.
\<close>

definition object_prototype_names :: "jsstring list" where
  "object_prototype_names =
     [utf16 ''constructor'', utf16 ''hasOwnProperty'', utf16 ''isPrototypeOf'',
      utf16 ''propertyIsEnumerable'', utf16 ''toLocaleString'', utf16 ''toString'',
      utf16 ''valueOf'', utf16 ''__proto__'', utf16 ''__defineGetter__'',
      utf16 ''__defineSetter__'', utf16 ''__lookupGetter__'', utf16 ''__lookupSetter__'']"

text \<open>
  The value put after \<open>tl=\<close> in the request: a code of the table, or the string form
  of the inherited member of that name.
\<close>

datatype tl_value = Code jsstring | Inherited jsstring

text \<open>\<open>langMap[targetLanguage] || 'hi'\<close>\<close>

definition langCode :: "jsstring \<Rightarrow> tl_value" where
  "langCode targetLanguage =
     (case map_of langMap targetLanguage of
        Some c \<Rightarrow> Code c
      | None \<Rightarrow>
          if targetLanguage \<in> set object_prototype_names then Inherited targetLanguage
          else Code (utf16 ''hi''))"

text \<open>
  \<open>encodeURIComponent\<close> throws a URIError on a string with a lone surrogate, and on
  no other string.
\<close>

fun well_formed_utf16 :: "jsstring \<Rightarrow> bool" where
  "well_formed_utf16 [] = True"
| "well_formed_utf16 [c] = (\<not> (0xD800 \<le> c \<and> c \<le> 0xDFFF))"
| "well_formed_utf16 (c # d # ds) =
     (if 0xD800 \<le> c \<and> c \<le> 0xDBFF then
        0xDC00 \<le> d \<and> d \<le> 0xDFFF \<and> well_formed_utf16 ds
      else \<not> (0xDC00 \<le> c \<and> c \<le> 0xDFFF) \<and> well_formed_utf16 (d # ds))"

text \<open>
  \<open>data[0].map(s => s[0]).join('')\<close> for a truthy \<open>data[0]\<close>: only an array has \<open>map\<close>,
  \<open>s[0]\<close> throws on a \<open>null\<close> segment, and \<open>join\<close> takes \<open>undefined\<close> and \<open>null\<close> as
  the empty string and the string form of anything else.
\<close>

definition joined_segments :: "json \<Rightarrow> error + jsstring" where
  "joined_segments d0 =
     (case d0 of
        JArr segs \<Rightarrow>
          if JNull \<in> set segs then Inl TypeError
          else (case those (map (\<lambda>s. case get_index0 s of
                                         None \<Rightarrow> Some []
                                       | Some JNull \<Rightarrow> Some []
                                       | Some v \<Rightarrow> js_to_string v) segs) of
                  None \<Rightarrow> Inl TypeError
                | Some parts \<Rightarrow> Inr (concat parts))
      | _ \<Rightarrow> Inl TypeError)"

text \<open>
  The body of the \<open>try\<close> in \<open>translatePoint\<close>, given the answer to the request for
  this text.
\<close>

definition translatePoint_try :: "fetch_result \<Rightarrow> jsstring \<Rightarrow> error + jsstring" where
  "translatePoint_try res txt =
     (if \<not> well_formed_utf16 txt then Inl URIError
      else (case res of
              FetchRejected \<Rightarrow> Inl NetworkError
            | Response st body parsed \<Rightarrow>
                if \<not> ok st then Inl (HttpError st)
                else (case parsed of
                        None \<Rightarrow> Inl SyntaxError
                      | Some data \<Rightarrow>
                          if truthy data \<and> truthy_opt (get_index0 data) then
                            (case get_index0 data of
                               None \<Rightarrow> Inr txt
                             | Some d0 \<Rightarrow> joined_segments d0)
                          else Inr txt)))"

text \<open>\<open>translatePoint\<close>: the \<open>catch\<close> returns the original text.\<close>

definition translatePoint :: "fetch_result \<Rightarrow> jsstring \<Rightarrow> error + jsstring" where
  "translatePoint res txt =
     (case translatePoint_try res txt of
        Inl err \<Rightarrow> Inr txt
      | Inr t \<Rightarrow> Inr t)"

text \<open>\<open>Promise.all\<close>: the values in the order of the promises, or the first rejection.\<close>

fun promise_all :: "(error + 'a) list \<Rightarrow> error + 'a list" where
  "promise_all [] = Inr []"
| "promise_all (Inl e # ps) = Inl e"
| "promise_all (Inr v # ps) =
     (case promise_all ps of Inl e \<Rightarrow> Inl e | Inr vs \<Rightarrow> Inr (v # vs))"

text \<open>
  The translation endpoint: the answer to the request sent for the item at a
  position of the batch, with its \<open>tl\<close> value and text.
\<close>

type_synonym translate_net = "nat \<Rightarrow> tl_value \<Rightarrow> jsstring \<Rightarrow> fetch_result"

definition translate :: "translate_net \<Rightarrow> jsstring list \<Rightarrow> jsstring \<Rightarrow> error + jsstring list" where
  "translate tnet points targetLanguage =
     (case promise_all
             (map (\<lambda>(i, p). translatePoint (tnet i (langCode targetLanguage) p) p)
                (enumerate 0 points)) of
        Inl err \<Rightarrow> Inl TranslationFailed
      | Inr translatedPoints \<Rightarrow> Inr translatedPoints)"

section \<open>The content script: panel, session cache, translation handler\<close>

record article =
  article_title :: jsstring
  article_text :: jsstring

text \<open>
  The element \<open>#summarizer-content\<close>: empty, the list of points made by
  \<open>displayPoints\<close>, the box of \<open>showError\<close> or of \<open>showNoArticle\<close> with its
  \<open>innerText\<close>, or text put there by the translation handler. The loading spinner
  is replaced on every path before \<open>displaySummary\<close>'s timer callback ends.
\<close>

datatype panel_content =
    Blank
  | SummaryList "jsstring list"
  | ErrorBox jsstring
  | NoArticleBox jsstring
  | PlainText jsstring

datatype notice = ConfigureKey | CouldNotGenerate | SummarizingFailed error

text \<open>
  The label of the translate button once a handler has run; the timer that restores
  the label three seconds after an error is left out.
\<close>

datatype translate_label = HindiLabel | TranslatedLabel | ErrorLabel

text \<open>
  The module's variables and the parts of the panel the handlers read back. The
  handlers run from the panel's buttons, so the elements they look up exist. No
  array is changed in place (\<open>concat\<close> and \<open>slice\<close> make new ones), so the variables
  hold values.
\<close>

record page =
  summarizer :: "ai_summarizer option"
  currentSummaryPoints :: "jsstring list"
  cachedUrl :: "jsstring option"
  cachedSummary :: "jsstring list option"
  cachedTitle :: "jsstring option"
  content :: panel_content
  headerTitle :: jsstring
  headerSubtitle :: jsstring
  translateBtn :: translate_label

text \<open>
  What the browser and the network supply to a handler: the page's URL, the stored
  keys (\<open>None\<close> when \<open>chrome.storage.sync.get\<close> rejects), the extractor's article,
  the providers, the translation endpoint, and the \<open>innerText\<close> the browser computes
  for the markup of a box or a list.
\<close>

record browser =
  href :: jsstring
  storage :: "(jsstring option \<times> jsstring option) option"
  extractArticle :: "article option"
  providers :: network
  translate_fetch :: translate_net
  error_innerText :: "notice \<Rightarrow> jsstring"
  no_article_innerText :: jsstring
  list_innerText :: "jsstring list \<Rightarrow> jsstring"

definition english_title :: jsstring where
  "english_title = [0xD83D, 0xDCDD] @ utf16 '' Article Summary''"

definition english_subtitle :: jsstring where
  "english_subtitle = utf16 ''Key points extracted just for you''"

definition initial_page :: page where
  "initial_page =
     \<lparr>summarizer = None, currentSummaryPoints = [], cachedUrl = None,
      cachedSummary = None, cachedTitle = None, content = Blank,
      headerTitle = english_title, headerSubtitle = english_subtitle,
      translateBtn = HindiLabel\<rparr>"

text \<open>\<open>key || null\<close> for a stored key\<close>

definition or_null :: "jsstring option \<Rightarrow> jsstring option" where
  "or_null key = (case key of None \<Rightarrow> None | Some k \<Rightarrow> if k = [] then None else Some k)"

definition initializeSummarizer :: "browser \<Rightarrow> page \<Rightarrow> page" where
  "initializeSummarizer b st =
     (case storage b of
        None \<Rightarrow> st\<lparr>summarizer := None\<rparr>
      | Some (g, m) \<Rightarrow>
          (let groqKey = or_null g; geminiKey = or_null m in
           if groqKey \<noteq> None \<or> geminiKey \<noteq> None then
             st\<lparr>summarizer := Some \<lparr>groqApiKey = groqKey, geminiApiKey = geminiKey\<rparr>\<rparr>
           else st\<lparr>summarizer := None\<rparr>))"

definition resetTranslateButton :: "page \<Rightarrow> page" where
  "resetTranslateButton st =
     st\<lparr>translateBtn := HindiLabel, headerTitle := english_title,
        headerSubtitle := english_subtitle\<rparr>"

definition displayPoints :: "jsstring list \<Rightarrow> page \<Rightarrow> page" where
  "displayPoints points st = resetTranslateButton (st\<lparr>content := SummaryList points\<rparr>)"

definition showNoArticle :: "browser \<Rightarrow> page \<Rightarrow> page" where
  "showNoArticle b st =
     resetTranslateButton (st\<lparr>content := NoArticleBox (no_article_innerText b)\<rparr>)"

definition showError :: "browser \<Rightarrow> notice \<Rightarrow> page \<Rightarrow> page" where
  "showError b n st = resetTranslateButton (st\<lparr>content := ErrorBox (error_innerText b n)\<rparr>)"

subsection \<open>The session cache\<close>

text \<open>
  The read at the head of \<open>displaySummary\<close>:
  \<open>cachedUrl === currentUrl && cachedSummary && cachedTitle\<close>; an array is truthy
  also when empty, a title only when not empty.
\<close>

definition cache_get :: "jsstring \<Rightarrow> page \<Rightarrow> (jsstring \<times> jsstring list) option" where
  "cache_get currentUrl st =
     (case cachedSummary st of
        None \<Rightarrow> None
      | Some summary \<Rightarrow>
          (case cachedTitle st of
             None \<Rightarrow> None
           | Some title \<Rightarrow>
               if cachedUrl st = Some currentUrl \<and> title \<noteq> [] then Some (title, summary)
               else None))"

text \<open>The three assignments under \<open>// Cache the summary\<close>.\<close>

definition cache_put :: "jsstring \<Rightarrow> jsstring \<Rightarrow> jsstring list \<Rightarrow> page \<Rightarrow> page" where
  "cache_put currentUrl title summaryPoints st =
     st\<lparr>cachedUrl := Some currentUrl, cachedSummary := Some summaryPoints,
        cachedTitle := Some title\<rparr>"

subsection \<open>\<open>displaySummary\<close>\<close>

text \<open>
  From \<open>if (!summaryPoints || summaryPoints.length === 0)\<close> to the end of the
  \<open>try\<close>; \<open>None\<close> stands for a falsy \<open>summaryPoints\<close>.
\<close>

definition display_result :: "browser \<Rightarrow> article \<Rightarrow> jsstring list option \<Rightarrow> page \<Rightarrow> page" where
  "display_result b a summaryPoints st =
     (case summaryPoints of
        None \<Rightarrow> showError b CouldNotGenerate st
      | Some points \<Rightarrow>
          if length points = 0 then showError b CouldNotGenerate st
          else displayPoints points
                 ((cache_put (href b) (article_title a) points st)
                    \<lparr>currentSummaryPoints := points\<rparr>))"

text \<open>
  The handler with its timer callback run to the end. The summarizer is an
  \<open>AISummarizer\<close>, so the branch for an object without \<open>summarize\<close> is not taken, and
  what \<open>summarize\<close> resolves with is an array.
\<close>

definition displaySummary :: "browser \<Rightarrow> page \<Rightarrow> page" where
  "displaySummary b st =
     (case cache_get (href b) st of
        Some (title, summary) \<Rightarrow> displayPoints summary (st\<lparr>currentSummaryPoints := summary\<rparr>)
      | None \<Rightarrow>
          (let st1 = (if summarizer st = None then initializeSummarizer b st else st) in
           case summarizer st1 of
             None \<Rightarrow> showError b ConfigureKey st1
           | Some s \<Rightarrow>
               (case extractArticle b of
                  None \<Rightarrow> showNoArticle b st1
                | Some a \<Rightarrow>
                    (case fst (summarize s (providers b) (article_text a) (article_title a)) of
                       Inl err \<Rightarrow> showError b (SummarizingFailed err) st1
                     | Inr points \<Rightarrow> display_result b a (Some points) st1))))"

subsection \<open>\<open>handleTranslate\<close>\<close>

text \<open>
  The texts collected after the two header texts, with the mode: \<open>True\<close> is
  \<open>'list'\<close>. \<open>contentDiv.innerText.trim()\<close> of the last branch is pushed when not
  empty.
\<close>

definition content_to_translate :: "browser \<Rightarrow> page \<Rightarrow> bool \<times> jsstring list" where
  "content_to_translate b st =
     (case content st of
        SummaryList shown \<Rightarrow>
          if length (currentSummaryPoints st) > 0 then (True, currentSummaryPoints st)
          else (let t = trim (list_innerText b shown) in
                (False, if t \<noteq> [] then [t] else []))
      | ErrorBox t \<Rightarrow> (False, [t])
      | NoArticleBox t \<Rightarrow> (False, [t])
      | PlainText t0 \<Rightarrow> (let t = trim t0 in (False, if t \<noteq> [] then [t] else []))
      | Blank \<Rightarrow> (False, []))"

text \<open>\<open>targetElement.innerText = contentResults[0]\<close> in the mode \<open>'text'\<close>.\<close>

definition replace_text :: "jsstring list \<Rightarrow> panel_content \<Rightarrow> panel_content" where
  "replace_text contentResults c =
     (case contentResults of
        [] \<Rightarrow> c
      | r # _ \<Rightarrow>
          (case c of
             ErrorBox t \<Rightarrow> ErrorBox r
           | NoArticleBox t \<Rightarrow> NoArticleBox r
           | SummaryList shown \<Rightarrow> PlainText r
           | PlainText t \<Rightarrow> PlainText r
           | Blank \<Rightarrow> Blank))"

definition handleTranslate :: "browser \<Rightarrow> page \<Rightarrow> page" where
  "handleTranslate b st =
     (case summarizer st of
        None \<Rightarrow> st
      | Some s \<Rightarrow>
          (let (list_mode, items) = content_to_translate b st;
               textToTranslate = [headerTitle st, headerSubtitle st] @ items in
           case translate (translate_fetch b) textToTranslate (utf16 ''Hindi'') of
             Inl err \<Rightarrow> st\<lparr>translateBtn := ErrorLabel\<rparr>
           | Inr translatedResult \<Rightarrow>
               (let n = length translatedResult;
                    st1 = (if 0 < n then st\<lparr>headerTitle := translatedResult ! 0\<rparr> else st);
                    i1 = (if 0 < n then 1 else 0);
                    st2 = (if i1 < n then st1\<lparr>headerSubtitle := translatedResult ! i1\<rparr>
                           else st1);
                    currentIndex = (if i1 < n then i1 + 1 else i1);
                    contentResults = drop currentIndex translatedResult;
                    st3 = (if list_mode then
                             (displayPoints contentResults st2)
                               \<lparr>currentSummaryPoints := contentResults\<rparr>
                           else st2\<lparr>content := replace_text contentResults (content st2)\<rparr>)
                in st3\<lparr>translateBtn := TranslatedLabel\<rparr>)))"

subsection \<open>The states the script can be in\<close>

text \<open>
  The handlers run one after another from the initial state: opening the panel
  runs \<open>displaySummary\<close>, the translate button \<open>handleTranslate\<close>, and the
  \<open>reloadSummarizer\<close> message \<open>initializeSummarizer\<close>, each with whatever the
  browser and the network supply at that moment.
\<close>

inductive reachable :: "page \<Rightarrow> bool" where
  init: "reachable initial_page"
| reload: "reachable st \<Longrightarrow> reachable (initializeSummarizer b st)"
| display: "reachable st \<Longrightarrow> reachable (displaySummary b st)"
| translated: "reachable st \<Longrightarrow> reachable (handleTranslate b st)"

section \<open>Notions used in the statements\<close>

text \<open>A credential that is \<open>null\<close> or consists only of white space.\<close>

definition blank_credential :: "jsstring option \<Rightarrow> bool" where
  "blank_credential key = (case key of None \<Rightarrow> True | Some k \<Rightarrow> list_all is_ws k)"

text \<open>A line that begins with a unit of the marker class.\<close>

definition starts_with_marker :: "jsstring \<Rightarrow> bool" where
  "starts_with_marker s = (case s of [] \<Rightarrow> False | c # _ \<Rightarrow> is_marker c)"

text \<open>A string that \<open>trim\<close> leaves as it is has no white space at either end.\<close>

definition trimmed :: "jsstring \<Rightarrow> bool" where
  "trimmed s \<longleftrightarrow> s = [] \<or> (\<not> is_ws (hd s) \<and> \<not> is_ws (last s))"

text \<open>
  The text a provider client reads from the answer to its request, when the answer
  is a success whose body holds a non-empty string at the provider's path.
\<close>

definition groq_response_text :: "network \<Rightarrow> jsstring \<Rightarrow> jsstring \<Rightarrow> jsstring option" where
  "groq_response_text net txt title =
     (case groq_fetch net (truncatedText txt) title of
        Response st body (Some data) \<Rightarrow>
          if ok st \<and> data \<noteq> JNull then
            (case groq_generatedText data of
               Some (JStr t) \<Rightarrow> if t \<noteq> [] then Some t else None
             | _ \<Rightarrow> None)
          else None
      | _ \<Rightarrow> None)"

definition gemini_response_text :: "network \<Rightarrow> jsstring \<Rightarrow> jsstring \<Rightarrow> jsstring option" where
  "gemini_response_text net txt title =
     (case gemini_fetch net (truncatedText txt) title of
        Response st body (Some data) \<Rightarrow>
          if ok st \<and> data \<noteq> JNull then
            (case gemini_generatedText data of
               Some (JStr t) \<Rightarrow> if t \<noteq> [] then Some t else None
             | _ \<Rightarrow> None)
          else None
      | _ \<Rightarrow> None)"

text \<open>
  The answers on which \<open>translatePoint\<close> gives the original text back: a rejected
  request, a status that is not a success, a body that is not JSON, a falsy \<open>data\<close>,
  a missing or falsy \<open>data[0]\<close>, a \<open>data[0]\<close> that is not an array, a \<open>null\<close> segment,
  and a segment whose first element has no string form. No other shape of a body is
  checked.
\<close>

definition segment_unprintable :: "json \<Rightarrow> bool" where
  "segment_unprintable s =
     (case get_index0 s of
        None \<Rightarrow> False
      | Some v \<Rightarrow> v \<noteq> JNull \<and> js_to_string v = None)"

definition item_failed :: "fetch_result \<Rightarrow> bool" where
  "item_failed res =
     (case res of
        FetchRejected \<Rightarrow> True
      | Response st body parsed \<Rightarrow>
          \<not> ok st \<or>
          (case parsed of
             None \<Rightarrow> True
           | Some data \<Rightarrow>
               \<not> truthy data \<or>
               (case get_index0 data of
                  None \<Rightarrow> True
                | Some d0 \<Rightarrow>
                    \<not> truthy d0 \<or>
                    (case d0 of
                       JArr segs \<Rightarrow> JNull \<in> set segs \<or> list_ex segment_unprintable segs
                     | _ \<Rightarrow> True))))"

text \<open>The three variables of the session cache are the same in two states.\<close>

definition same_cache :: "page \<Rightarrow> page \<Rightarrow> bool" where
  "same_cache st st' \<longleftrightarrow>
     cachedUrl st' = cachedUrl st \<and> cachedSummary st' = cachedSummary st \<and>
     cachedTitle st' = cachedTitle st"

section \<open>Inputs used in the examples\<close>

text \<open>The raw text of the specification's example, and three more raw texts.\<close>

definition example_numbered :: jsstring where
  "example_numbered =
     utf16 ''1. Short.'' @ [0x0A] @
     utf16 ''2. This is a sufficiently long bullet point that should survive filtering.'' @ [0x0A] @
     utf16 ''Incomplete without end''"

definition example_open_first :: jsstring where
  "example_open_first =
     utf16 ''This first line has no terminal punctuation'' @ [0x0A] @
     utf16 ''This second line ends properly with a period.''"

definition example_two_cut_off :: jsstring where
  "example_two_cut_off =
     utf16 ''The first sentence is complete and long.'' @ [0x0A] @
     utf16 ''The second line is long but stops short'' @ [0x0A] @
     utf16 ''The third line is long and also cut off''"

definition example_twenty :: jsstring where
  "example_twenty = utf16 ''Exactly twenty char.''"

text \<open>A well-formed answer of the primary provider with the given text, and a network giving it.\<close>

definition groq_body :: "jsstring \<Rightarrow> json" where
  "groq_body t =
     JObj [(utf16 ''choices'',
            JArr [JObj [(utf16 ''message'', JObj [(utf16 ''content'', JStr t)])]])]"

definition groq_answers :: "jsstring \<Rightarrow> network" where
  "groq_answers t =
     \<lparr>groq_fetch = (\<lambda>txt title. Response 200 [] (Some (groq_body t))),
      gemini_fetch = (\<lambda>txt title. FetchRejected)\<rparr>"

text \<open>A summarizer with the primary key only, and a network whose primary provider answers 500.\<close>

definition groq_only :: ai_summarizer where
  "groq_only = \<lparr>groqApiKey = Some (utf16 ''gsk_test''), geminiApiKey = None\<rparr>"

definition groq_down :: network where
  "groq_down =
     \<lparr>groq_fetch = (\<lambda>txt title. Response 500 (utf16 ''overloaded'') None),
      gemini_fetch = (\<lambda>txt title. FetchRejected)\<rparr>"

text \<open>A summarizer whose primary key is three spaces.\<close>

definition blank_keys :: ai_summarizer where
  "blank_keys = \<lparr>groqApiKey = Some (utf16 ''   ''), geminiApiKey = None\<rparr>"

text \<open>
  The body of a translation answer: the segments, each a translated text followed by
  more elements, then the other elements of the answer.
\<close>

definition gtx_body :: "(jsstring \<times> json list) list \<Rightarrow> json" where
  "gtx_body segs =
     JArr (JArr (map (\<lambda>(t, more). JArr (JStr t # more)) segs) # [JNull, JStr (utf16 ''en'')])"

text \<open>
  An endpoint for Spanish (400 for any other \<open>tl\<close> value) that answers 500 to the second
  item of a batch, the first letter to the first item, and to the others two
  segments: \<open>Punto \<close> and what follows the sixth unit of the text.
\<close>

definition second_fails :: translate_net where
  "second_fails i code txt =
     (if code \<noteq> Code (utf16 ''es'') then Response 400 [] None
      else if i = 1 then Response 500 [] None
      else if i = 0 then Response 200 [] (Some (gtx_body [(take 1 txt, [JStr txt])]))
      else Response 200 []
             (Some (gtx_body [(utf16 ''Punto '', [JStr (take 6 txt)]),
                              (drop 6 txt, [JStr (drop 6 txt)])])))"

text \<open>
  Two endpoints whose answers are successes of another shape: a segment that is a
  string instead of an array, and no segment at all.
\<close>

definition flat_segment :: translate_net where
  "flat_segment i code txt =
     Response 200 [] (Some (JArr [JArr [JStr (utf16 ''Hola mundo'')]]))"

definition no_segment :: translate_net where
  "no_segment i code txt = Response 200 [] (Some (JArr [JArr []]))"

definition example_batch :: "jsstring list" where
  "example_batch = [utf16 ''Title'', utf16 ''Subtitle'', utf16 ''Point A'', utf16 ''Point B'']"

text \<open>
  A page with an article, a primary provider answering one long sentence, and an
  endpoint translating everything to \<open>HI\<close>; the same browser on another page with a
  provider answering a short line; the state after the first summary.
\<close>

definition example_point :: jsstring where
  "example_point = utf16 ''The only sentence of this summary is long.''"

definition always_hi :: translate_net where
  "always_hi i code txt = Response 200 [] (Some (JArr [JArr [JArr [JStr (utf16 ''HI'')]]]))"

definition example_browser :: browser where
  "example_browser =
     \<lparr>href = utf16 ''https://example.org/a'',
      storage = Some (Some (utf16 ''gsk_test''), None),
      extractArticle = Some \<lparr>article_title = utf16 ''News'', article_text = utf16 ''Body''\<rparr>,
      providers = groq_answers example_point,
      translate_fetch = always_hi,
      error_innerText = (\<lambda>n. utf16 ''Setup Required''),
      no_article_innerText = utf16 ''No article content detected on this page.'',
      list_innerText = join_with [0x0A]\<rparr>"

definition short_browser :: browser where
  "short_browser =
     example_browser\<lparr>href := utf16 ''https://example.org/b'',
                      providers := groq_answers (utf16 ''Too short.'')\<rparr>"

definition summarized_page :: page where
  "summarized_page = displaySummary example_browser initial_page"

section \<open>Facts about strings and the pipeline\<close>

lemmas pipeline_defs =
  sanitize_def parse_points_def stripped_lines_def utf16_def trim_def is_ws_def
  is_marker_def ends_with_punctuation_def

lemma last_dropWhile: "dropWhile P xs \<noteq> [] \<Longrightarrow> last (dropWhile P xs) = last xs"
  by (induction xs) (auto split: if_splits)

lemma trim_Nil [simp]: "trim [] = []"
  by (simp add: trim_def)

lemma trimmed_trim: "trimmed (trim s)"
proof (cases "trim s = []")
  case True
  then show ?thesis by (simp add: trimmed_def)
next
  case False
  let ?a = "dropWhile is_ws s"
  let ?b = "dropWhile is_ws (rev ?a)"
  from False have b: "?b \<noteq> []" by (simp add: trim_def)
  have a: "?a \<noteq> []"
  proof
    assume "?a = []"
    with b show False by simp
  qed
  have "last (trim s) = hd ?b" using b by (simp add: trim_def last_rev)
  then have l: "\<not> is_ws (last (trim s))" using b hd_dropWhile by metis
  have "hd (trim s) = last ?b" using b by (simp add: trim_def hd_rev)
  also have "\<dots> = last (rev ?a)" using b by (rule last_dropWhile)
  also have "\<dots> = hd ?a" using a by (simp add: last_rev)
  finally have h: "\<not> is_ws (hd (trim s))" using a hd_dropWhile by metis
  from l h show ?thesis by (simp add: trimmed_def)
qed

lemma trim_trimmed: "trimmed s \<Longrightarrow> trim s = s"
proof (cases s)
  case Nil
  then show ?thesis by simp
next
  case (Cons c cs)
  assume "trimmed s"
  with Cons have h: "\<not> is_ws (hd s)" and l: "\<not> is_ws (last s)" by (auto simp: trimmed_def)
  from h Cons have 1: "dropWhile is_ws s = s" by simp
  from l have 2: "dropWhile is_ws (rev s) = rev s"
    by (simp add: dropWhile_eq_self_iff hd_rev)
  show ?thesis by (simp add: trim_def 1 2)
qed

lemma trim_idem: "trim (trim s) = trim s"
  by (rule trim_trimmed) (rule trimmed_trim)

lemma set_trim: "set (trim s) \<subseteq> set s"
proof
  fix x assume "x \<in> set (trim s)"
  then have "x \<in> set (dropWhile is_ws (rev (dropWhile is_ws s)))" by (simp add: trim_def)
  then have "x \<in> set (rev (dropWhile is_ws s))" by (rule set_dropWhileD)
  then have "x \<in> set (dropWhile is_ws s)" by simp
  then show "x \<in> set s" by (rule set_dropWhileD)
qed

lemma dropWhile_all_iff: "(\<forall>c \<in> set (dropWhile P xs). P c) \<longleftrightarrow> (\<forall>c \<in> set xs. P c)"
  by (induction xs) auto

lemma trim_eq_Nil_iff: "trim s = [] \<longleftrightarrow> (\<forall>c \<in> set s. is_ws c)"
  by (simp add: trim_def dropWhile_all_iff)

lemma split_on_not_Nil [simp]: "split_on sep s \<noteq> []"
  by (induction s) (auto split: list.splits)

lemma split_on_no_sep: "l \<in> set (split_on sep s) \<Longrightarrow> sep \<notin> set l"
  by (induction s arbitrary: l) (auto split: if_splits list.splits)

lemma split_on_no_sep_id: "sep \<notin> set l \<Longrightarrow> split_on sep l = [l]"
  by (induction l) auto

lemma split_on_append_sep:
  "sep \<notin> set l \<Longrightarrow> split_on sep (l @ sep # rest) = l # split_on sep rest"
  by (induction l) auto

lemma split_on_join:
  "xs \<noteq> [] \<Longrightarrow> \<forall>l \<in> set xs. sep \<notin> set l \<Longrightarrow> split_on sep (join_with [sep] xs) = xs"
proof (induction "[sep]" xs rule: join_with.induct)
  case 1
  then show ?case by simp
next
  case (2 x)
  then show ?case by (simp add: split_on_no_sep_id)
next
  case (3 x y ys)
  then show ?case by (simp add: split_on_append_sep)
qed

lemma set_strip_marker: "set (strip_marker l) \<subseteq> set l"
  by (cases l) (auto dest: set_dropWhileD)

lemma strip_marker_id: "\<not> starts_with_marker l \<Longrightarrow> strip_marker l = l"
  by (cases l) (auto simp: starts_with_marker_def)

lemma stripped_lines_props:
  assumes "l \<in> set (stripped_lines raw)"
  shows "trim l = l" and "0x0A \<notin> set l"
proof -
  from assms obtain l0 where l0: "l0 \<in> set (split_on 0x0A raw)" and l: "l = trim (strip_marker (trim l0))"
    by (auto simp: stripped_lines_def)
  show "trim l = l" by (simp add: l trim_idem)
  have "set l \<subseteq> set l0" using set_trim set_strip_marker unfolding l by blast
  with split_on_no_sep[OF l0] show "0x0A \<notin> set l" by blast
qed

lemma parse_points_props:
  assumes "l \<in> set (parse_points raw)"
  shows "trim l = l" and "0x0A \<notin> set l" and "20 < length l"
  using assms stripped_lines_props[of l raw] by (auto simp: parse_points_def)

lemma set_sanitize: "set (sanitize raw) \<subseteq> set (parse_points raw)"
  by (auto simp: sanitize_def Let_def dest: in_set_butlastD)

lemma parse_points_fixed:
  assumes "\<forall>l \<in> set xs. trim l = l \<and> 0x0A \<notin> set l \<and> 20 < length l \<and> \<not> starts_with_marker l"
  shows "parse_points (join_with [0x0A] xs) = xs"
proof (cases "xs = []")
  case True
  then show ?thesis by (simp add: parse_points_def stripped_lines_def)
next
  case False
  with assms have s: "split_on 0x0A (join_with [0x0A] xs) = xs"
    by (simp add: split_on_join)
  from assms have 1: "map (\<lambda>line. trim line) xs = xs" by (simp add: map_idI)
  from assms have 2: "filter (\<lambda>line. length line > 0) xs = xs" by (auto simp: filter_id_conv)
  from assms have 3: "map (\<lambda>line. trim (strip_marker line)) xs = xs"
    by (simp add: map_idI strip_marker_id)
  from assms have 4: "filter (\<lambda>line. length line > 20) xs = xs" by (auto simp: filter_id_conv)
  have "stripped_lines (join_with [0x0A] xs) = xs"
    by (simp only: stripped_lines_def s 1 2 3)
  then show ?thesis by (simp only: parse_points_def 4)
qed


lemma points_of_iff:
  "points_of e v = Inr pts \<longleftrightarrow> (\<exists>t. v = Some (JStr t) \<and> t \<noteq> [] \<and> pts = sanitize t)"
  by (auto simp: points_of_def truthy_opt_def split: option.splits json.splits)

lemma summarizeWithGroq_iff:
  "summarizeWithGroq net txt title = Inr pts \<longleftrightarrow>
     (\<exists>r. groq_response_text net txt title = Some r \<and> pts = sanitize r)"
  by (auto simp: summarizeWithGroq_def groq_response_text_def points_of_iff
      split: fetch_result.splits option.splits json.splits if_splits)

lemma summarizeWithGemini_iff:
  "summarizeWithGemini net txt title = Inr pts \<longleftrightarrow>
     (\<exists>r. gemini_response_text net txt title = Some r \<and> pts = sanitize r)"
  by (auto simp: summarizeWithGemini_def gemini_response_text_def points_of_iff
      split: fetch_result.splits option.splits json.splits if_splits)

lemma sanitize_element: "p \<in> set (sanitize raw) \<Longrightarrow> trim p = p \<and> 20 < length p"
  using set_sanitize[of raw] parse_points_props[of p raw] by blast

lemma sanitize_last:
  assumes "sanitize raw \<noteq> []" and "length (sanitize raw) = length (parse_points raw)"
  shows "ends_with_punctuation (last (sanitize raw))"
proof (rule ccontr)
  assume n: "\<not> ends_with_punctuation (last (sanitize raw))"
  from assms have ne: "parse_points raw \<noteq> []" by auto
  show False
  proof (cases "ends_with_punctuation (last (parse_points raw))")
    case True
    then have "sanitize raw = parse_points raw" by (simp add: sanitize_def Let_def)
    with n True show False by simp
  next
    case False
    with ne have "sanitize raw = butlast (parse_points raw)" by (simp add: sanitize_def Let_def)
    then have "length (sanitize raw) = length (parse_points raw) - 1" by simp
    moreover from ne have "0 < length (parse_points raw)" by simp
    ultimately show False using assms(2) by arith
  qed
qed

lemma summarizeWithGroq_answers:
  "t \<noteq> [] \<Longrightarrow> summarizeWithGroq (groq_answers t) txt title = Inr (sanitize t)"
  by (simp add: summarizeWithGroq_def groq_answers_def groq_body_def ok_def
      groq_generatedText_def optional_prop_def optional_index0_def points_of_def truthy_opt_def)

section \<open>The sanitization pipeline\<close>

text \<open>
  C3. On the specification's three-line example the pipeline returns one element,
  and that element keeps the dot and the space of \<open>2. \<close>: the marker class removes
  the digit alone. The first line becomes \<open>. Short.\<close> and fails the length filter,
  the last line is popped for its missing terminal punctuation.
\<close>

theorem sanitize_example_numbered:
  "sanitize example_numbered =
     [utf16 ''. This is a sufficiently long bullet point that should survive filtering.'']"
  by (simp add: example_numbered_def pipeline_defs)

text \<open>
  C4, as stated, at a two-line text: both lines are returned, and the first does not
  end in \<open>.\<close>, \<open>!\<close> or \<open>?\<close>.
\<close>

theorem sanitize_open_first_counterexample:
  "sanitize example_open_first =
     [utf16 ''This first line has no terminal punctuation'',
      utf16 ''This second line ends properly with a period.''] \<and>
   \<not> ends_with_punctuation (utf16 ''This first line has no terminal punctuation'')"
  by (simp add: example_open_first_def pipeline_defs)

text \<open>
  C4, amended. A provider client returns an array exactly when its answer carries a
  text, and the array is the pipeline's result on that text. For every raw text, so
  for that one: each element of the result is left unchanged by \<open>trim\<close>, is not
  empty and has more than 20 code units; terminal punctuation is checked on the last
  parsed line only, so when the result is not empty and no line was removed, its
  last element ends in \<open>.\<close>, \<open>!\<close> or \<open>?\<close>, and a line is removed only when it is the
  last parsed line and does not end so.
\<close>

theorem provider_points_elements:
  "(summarizeWithGroq net txt title = Inr pts \<longleftrightarrow>
      (\<exists>r. groq_response_text net txt title = Some r \<and> pts = sanitize r)) \<and>
   (summarizeWithGemini net txt title = Inr pts \<longleftrightarrow>
      (\<exists>r. gemini_response_text net txt title = Some r \<and> pts = sanitize r)) \<and>
   (groq_response_text net txt title = Some raw \<longrightarrow>
      summarizeWithGroq net txt title = Inr (sanitize raw)) \<and>
   (gemini_response_text net txt title = Some raw \<longrightarrow>
      summarizeWithGemini net txt title = Inr (sanitize raw)) \<and>
   (\<forall>p \<in> set (sanitize raw). trim p = p \<and> trim p \<noteq> [] \<and> 20 < length p) \<and>
   (sanitize raw \<noteq> [] \<and> length (sanitize raw) = length (parse_points raw)
      \<longrightarrow> ends_with_punctuation (last (sanitize raw))) \<and>
   (length (sanitize raw) \<noteq> length (parse_points raw)
      \<longrightarrow> parse_points raw \<noteq> [] \<and> sanitize raw = butlast (parse_points raw) \<and>
          \<not> ends_with_punctuation (last (parse_points raw)))"
proof (intro conjI)
  show "summarizeWithGroq net txt title = Inr pts \<longleftrightarrow>
      (\<exists>r. groq_response_text net txt title = Some r \<and> pts = sanitize r)"
    by (rule summarizeWithGroq_iff)
  show "summarizeWithGemini net txt title = Inr pts \<longleftrightarrow>
      (\<exists>r. gemini_response_text net txt title = Some r \<and> pts = sanitize r)"
    by (rule summarizeWithGemini_iff)
  show "groq_response_text net txt title = Some raw \<longrightarrow>
      summarizeWithGroq net txt title = Inr (sanitize raw)"
    by (simp add: summarizeWithGroq_iff)
  show "gemini_response_text net txt title = Some raw \<longrightarrow>
      summarizeWithGemini net txt title = Inr (sanitize raw)"
    by (simp add: summarizeWithGemini_iff)
  show "\<forall>p \<in> set (sanitize raw). trim p = p \<and> trim p \<noteq> [] \<and> 20 < length p"
    using sanitize_element[of _ raw] by fastforce
  show "sanitize raw \<noteq> [] \<and> length (sanitize raw) = length (parse_points raw)
      \<longrightarrow> ends_with_punctuation (last (sanitize raw))"
    using sanitize_last by blast
  show "length (sanitize raw) \<noteq> length (parse_points raw)
      \<longrightarrow> parse_points raw \<noteq> [] \<and> sanitize raw = butlast (parse_points raw) \<and>
          \<not> ends_with_punctuation (last (parse_points raw))"
    by (auto simp: sanitize_def Let_def split: if_splits)
qed

theorem provider_points_elements_witness:
  "groq_response_text (groq_answers example_open_first) [] [] = Some example_open_first \<and>
   summarizeWithGroq (groq_answers example_open_first) [] [] =
     Inr [utf16 ''This first line has no terminal punctuation'',
          utf16 ''This second line ends properly with a period.''] \<and>
   trim (utf16 ''This first line has no terminal punctuation'') =
     utf16 ''This first line has no terminal punctuation'' \<and>
   20 < length (utf16 ''This first line has no terminal punctuation'') \<and>
   length (sanitize example_open_first) = length (parse_points example_open_first) \<and>
   ends_with_punctuation (utf16 ''This second line ends properly with a period.'') \<and>
   length (sanitize example_two_cut_off) \<noteq> length (parse_points example_two_cut_off) \<and>
   \<not> ends_with_punctuation (last (parse_points example_two_cut_off))"
proof -
  have s: "sanitize example_open_first =
     [utf16 ''This first line has no terminal punctuation'',
      utf16 ''This second line ends properly with a period.'']"
    by (simp add: example_open_first_def pipeline_defs)
  have pp: "length (parse_points example_open_first) = 2"
    by (simp add: example_open_first_def pipeline_defs)
  have l: "length (sanitize example_open_first) = length (parse_points example_open_first)"
    by (simp add: s pp)
  have ne: "example_open_first \<noteq> []" by (simp add: example_open_first_def utf16_def)
  have r: "groq_response_text (groq_answers example_open_first) [] [] = Some example_open_first"
    using ne
    by (simp add: groq_response_text_def groq_answers_def groq_body_def ok_def
        groq_generatedText_def optional_prop_def optional_index0_def)
  have c: "length (sanitize example_two_cut_off) \<noteq> length (parse_points example_two_cut_off)"
    by (simp add: example_two_cut_off_def pipeline_defs)
  note t1 = provider_points_elements[of "groq_answers example_open_first" "[]" "[]" _ example_open_first]
  note t2 = provider_points_elements[of _ _ _ _ example_two_cut_off]
  from t1 r have g: "summarizeWithGroq (groq_answers example_open_first) [] [] =
      Inr (sanitize example_open_first)" by blast
  from t1 have e: "\<forall>p \<in> set (sanitize example_open_first). trim p = p \<and> trim p \<noteq> [] \<and> 20 < length p"
    by blast
  from t1 l have "ends_with_punctuation (last (sanitize example_open_first))"
    by (simp add: s)
  then have p: "ends_with_punctuation (utf16 ''This second line ends properly with a period.'')"
    by (simp add: s)
  from t2 c have q: "\<not> ends_with_punctuation (last (parse_points example_two_cut_off))"
    by blast
  from r g e l p c q show ?thesis by (simp add: s)
qed

text \<open>
  C5, as stated, at a three-line text whose last two lines are cut off: the first
  pass keeps two elements, the second pass removes the second of them.
\<close>

theorem sanitize_rerun_counterexample:
  "sanitize example_two_cut_off =
     [utf16 ''The first sentence is complete and long.'',
      utf16 ''The second line is long but stops short''] \<and>
   sanitize (join_with [0x0A] (sanitize example_two_cut_off)) =
     [utf16 ''The first sentence is complete and long.'']"
  by (simp add: example_two_cut_off_def pipeline_defs)

text \<open>
  C5, amended. When no element of the pipeline's output begins with a unit of the
  marker class, running the pipeline on the output's lines joined by line feeds
  returns the output unchanged if it is empty or its last element ends in \<open>.\<close>,
  \<open>!\<close> or \<open>?\<close>, and returns it without its last element otherwise.
\<close>

theorem sanitize_rerun:
  assumes "\<forall>p \<in> set (sanitize raw). \<not> starts_with_marker p"
  shows "sanitize (join_with [0x0A] (sanitize raw)) =
           (if sanitize raw \<noteq> [] \<and> \<not> ends_with_punctuation (last (sanitize raw))
            then butlast (sanitize raw) else sanitize raw)"
proof -
  have "parse_points (join_with [0x0A] (sanitize raw)) = sanitize raw"
    using assms set_sanitize[of raw] parse_points_props[of _ raw]
    by (intro parse_points_fixed) blast
  then show ?thesis by (simp add: sanitize_def[of "join_with [0x0A] (sanitize raw)"] Let_def)
qed

theorem sanitize_rerun_witness:
  "sanitize example_two_cut_off =
     [utf16 ''The first sentence is complete and long.'',
      utf16 ''The second line is long but stops short''] \<and>
   \<not> starts_with_marker (utf16 ''The first sentence is complete and long.'') \<and>
   \<not> starts_with_marker (utf16 ''The second line is long but stops short'') \<and>
   sanitize (join_with [0x0A] (sanitize example_two_cut_off)) =
     butlast (sanitize example_two_cut_off)"
proof -
  have s: "sanitize example_two_cut_off =
     [utf16 ''The first sentence is complete and long.'',
      utf16 ''The second line is long but stops short'']"
    by (simp add: example_two_cut_off_def pipeline_defs)
  have m: "\<not> starts_with_marker (utf16 ''The first sentence is complete and long.'') \<and>
           \<not> starts_with_marker (utf16 ''The second line is long but stops short'')"
    by (simp add: starts_with_marker_def utf16_def is_marker_def)
  then have h: "\<forall>p \<in> set (sanitize example_two_cut_off). \<not> starts_with_marker p"
    by (simp add: s)
  have e: "\<not> ends_with_punctuation (last (sanitize example_two_cut_off))"
    by (simp add: s utf16_def ends_with_punctuation_def)
  have "sanitize example_two_cut_off \<noteq> []" by (simp add: s)
  with sanitize_rerun[OF h] e
  have "sanitize (join_with [0x0A] (sanitize example_two_cut_off)) =
          butlast (sanitize example_two_cut_off)" by simp
  with s m show ?thesis by blast
qed

text \<open>
  C8, as stated, at a line of exactly 20 code units: it is a stripped line and the
  length filter discards it.
\<close>

theorem length_filter_twenty_counterexample:
  "length example_twenty = 20 \<and>
   stripped_lines example_twenty = [example_twenty] \<and>
   parse_points example_twenty = [] \<and> sanitize example_twenty = []"
  by (simp add: example_twenty_def pipeline_defs)

text \<open>
  C8, amended. The length filter keeps exactly the stripped lines of more than 20
  code units: a stripped line of 20 or fewer is in no result, and a stripped line of
  more than 20 is in the result unless it is the last kept line and lacks terminal
  punctuation.
\<close>

theorem length_filter:
  "(\<forall>l. l \<in> set (parse_points raw) \<longleftrightarrow> l \<in> set (stripped_lines raw) \<and> 20 < length l) \<and>
   (\<forall>l \<in> set (stripped_lines raw). length l \<le> 20 \<longrightarrow> l \<notin> set (sanitize raw)) \<and>
   (\<forall>l \<in> set (stripped_lines raw). 20 < length l \<longrightarrow>
      l \<in> set (sanitize raw) \<or>
      (l = last (parse_points raw) \<and> \<not> ends_with_punctuation l))"
proof (intro conjI allI ballI impI)
  fix l
  show "l \<in> set (parse_points raw) \<longleftrightarrow> l \<in> set (stripped_lines raw) \<and> 20 < length l"
    by (simp add: parse_points_def)
next
  fix l assume "l \<in> set (stripped_lines raw)" and "length l \<le> 20"
  then have "l \<notin> set (parse_points raw)" by (simp add: parse_points_def)
  with set_sanitize[of raw] show "l \<notin> set (sanitize raw)" by blast
next
  fix l assume "l \<in> set (stripped_lines raw)" and "20 < length l"
  then have in_pp: "l \<in> set (parse_points raw)" by (simp add: parse_points_def)
  then have ne: "parse_points raw \<noteq> []" by auto
  show "l \<in> set (sanitize raw) \<or> (l = last (parse_points raw) \<and> \<not> ends_with_punctuation l)"
  proof (cases "ends_with_punctuation (last (parse_points raw))")
    case True
    then have "sanitize raw = parse_points raw" by (simp add: sanitize_def Let_def)
    with in_pp show ?thesis by simp
  next
    case False
    then have s: "sanitize raw = butlast (parse_points raw)"
      using ne by (simp add: sanitize_def Let_def)
    from in_pp ne have "l \<in> set (butlast (parse_points raw)) \<or> l = last (parse_points raw)"
      by (metis append_butlast_last_id in_set_conv_decomp insert_iff list.set(2) set_append Un_iff empty_set empty_iff)
    with False s show ?thesis by auto
  qed
qed


theorem length_filter_witness:
  "utf16 ''Short text.'' \<in> set (stripped_lines (utf16 ''- Short text.'')) \<and>
   utf16 ''Short text.'' \<notin> set (sanitize (utf16 ''- Short text.'')) \<and>
   utf16 ''Twenty-one characters'' \<in> set (stripped_lines (utf16 ''* Twenty-one characters'')) \<and>
   utf16 ''Twenty-one characters'' = last (parse_points (utf16 ''* Twenty-one characters'')) \<and>
   \<not> ends_with_punctuation (utf16 ''Twenty-one characters'')"
proof -
  have a: "utf16 ''Short text.'' \<in> set (stripped_lines (utf16 ''- Short text.''))"
    by (simp add: pipeline_defs)
  have b: "length (utf16 ''Short text.'') \<le> 20" by (simp add: utf16_def)
  have c: "utf16 ''Twenty-one characters'' \<in> set (stripped_lines (utf16 ''* Twenty-one characters''))"
    by (simp add: pipeline_defs)
  have d: "20 < length (utf16 ''Twenty-one characters'')" by (simp add: utf16_def)
  have e: "utf16 ''Twenty-one characters'' \<notin> set (sanitize (utf16 ''* Twenty-one characters''))"
    by (simp add: pipeline_defs)
  from length_filter[of "utf16 ''- Short text.''"] a b
  have 1: "utf16 ''Short text.'' \<notin> set (sanitize (utf16 ''- Short text.''))" by blast
  from length_filter[of "utf16 ''* Twenty-one characters''"] c d e
  have 2: "utf16 ''Twenty-one characters'' = last (parse_points (utf16 ''* Twenty-one characters'')) \<and>
   \<not> ends_with_punctuation (utf16 ''Twenty-one characters'')" by blast
  from a 1 c 2 show ?thesis by blast
qed

section \<open>The orchestrator\<close>

lemma blank_credential_iff: "blank_credential key \<longleftrightarrow> (case key of None \<Rightarrow> True | Some k \<Rightarrow> trim k = [])"
  by (simp add: blank_credential_def trim_eq_Nil_iff list_all_iff split: option.splits)

lemma isGroqAvailable_blank: "isGroqAvailable s \<longleftrightarrow> \<not> blank_credential (groqApiKey s)"
  by (simp add: isGroqAvailable_def blank_credential_iff split: option.splits)

lemma isGeminiAvailable_blank: "isGeminiAvailable s \<longleftrightarrow> \<not> blank_credential (geminiApiKey s)"
  by (simp add: isGeminiAvailable_def blank_credential_iff split: option.splits)

lemma summarize_gemini_calls:
  "snd (summarize_gemini s net txt title calls) =
     (if isGeminiAvailable s then calls @ [Gemini] else calls)"
  by (simp add: summarize_gemini_def split: sum.splits)

lemma summarize_calls:
  "snd (summarize s net txt title) =
     (if isGroqAvailable s then
        (case summarizeWithGroq net txt title of
           Inr points \<Rightarrow> [Groq]
         | Inl err \<Rightarrow> if isGeminiAvailable s then [Groq, Gemini] else [Groq])
      else if isGeminiAvailable s then [Gemini] else [])"
  by (simp add: summarize_def summarize_gemini_calls split: sum.splits)

text \<open>
  C1. With the primary key only and a primary provider that answers 500, for every
  text and title: the primary client fails with its HTTP error, and \<open>summarize\<close>
  rejects with the "API key required" error after the one request to the primary
  provider, although a provider is configured.
\<close>

theorem summarize_groq_only_failure:
  "summarizeWithGroq groq_down txt title = Inl (GroqApiError 500 (utf16 ''overloaded'')) \<and>
   isGroqAvailable groq_only \<and> \<not> isGeminiAvailable groq_only \<and>
   summarize groq_only groq_down txt title = (Inl ApiKeyRequired, [Groq])"
  by (simp add: summarize_def summarize_gemini_def summarizeWithGroq_def groq_down_def
      groq_only_def isGroqAvailable_def isGeminiAvailable_def ok_def utf16_def trim_def is_ws_def)

text \<open>
  C9. A key is not available exactly when it is \<open>null\<close> or all white space. A
  provider with such a key is not requested, and when both keys are such,
  \<open>summarize\<close> rejects with the "API key required" error without any request.
\<close>

theorem blank_credentials_skipped:
  "(blank_credential (groqApiKey s) \<longleftrightarrow> \<not> isGroqAvailable s) \<and>
   (blank_credential (geminiApiKey s) \<longleftrightarrow> \<not> isGeminiAvailable s) \<and>
   (blank_credential (groqApiKey s) \<longrightarrow> Groq \<notin> set (snd (summarize s net txt title))) \<and>
   (blank_credential (geminiApiKey s) \<longrightarrow> Gemini \<notin> set (snd (summarize s net txt title))) \<and>
   (blank_credential (groqApiKey s) \<and> blank_credential (geminiApiKey s) \<longrightarrow>
      summarize s net txt title = (Inl ApiKeyRequired, []))"
proof (intro conjI impI)
  show "blank_credential (groqApiKey s) \<longleftrightarrow> \<not> isGroqAvailable s"
    by (simp add: isGroqAvailable_blank)
  show "blank_credential (geminiApiKey s) \<longleftrightarrow> \<not> isGeminiAvailable s"
    by (simp add: isGeminiAvailable_blank)
next
  assume "blank_credential (groqApiKey s)"
  then have "\<not> isGroqAvailable s" by (simp add: isGroqAvailable_blank)
  then show "Groq \<notin> set (snd (summarize s net txt title))"
    by (simp add: summarize_calls)
next
  assume "blank_credential (geminiApiKey s)"
  then have "\<not> isGeminiAvailable s" by (simp add: isGeminiAvailable_blank)
  then show "Gemini \<notin> set (snd (summarize s net txt title))"
    by (simp add: summarize_calls split: sum.splits)
next
  assume "blank_credential (groqApiKey s) \<and> blank_credential (geminiApiKey s)"
  then have "\<not> isGroqAvailable s" and "\<not> isGeminiAvailable s"
    by (simp_all add: isGroqAvailable_blank isGeminiAvailable_blank)
  then show "summarize s net txt title = (Inl ApiKeyRequired, [])"
    by (simp add: summarize_def summarize_gemini_def)
qed

theorem blank_credentials_skipped_witness:
  "blank_credential (groqApiKey blank_keys) \<and> blank_credential (geminiApiKey blank_keys) \<and>
   summarize blank_keys (groq_answers example_open_first) [] [] = (Inl ApiKeyRequired, [])"
proof -
  have g: "blank_credential (groqApiKey blank_keys)"
    by (simp add: blank_keys_def blank_credential_def utf16_def is_ws_def)
  have m: "blank_credential (geminiApiKey blank_keys)"
    by (simp add: blank_keys_def blank_credential_def)
  from blank_credentials_skipped[of blank_keys "groq_answers example_open_first" "[]" "[]"] g m
  show ?thesis by blast
qed

section \<open>The translation client\<close>

lemma translatePoint_eq:
  "translatePoint res txt =
     Inr (case translatePoint_try res txt of Inl err \<Rightarrow> txt | Inr t \<Rightarrow> t)"
  by (simp add: translatePoint_def split: sum.splits)

lemma promise_all_Inr: "promise_all (map Inr xs) = Inr xs"
  by (induction xs) auto

lemma translate_eq:
  "translate tnet points lang =
     Inr (map (\<lambda>(i, p). case translatePoint_try (tnet i (langCode lang) p) p of
                           Inl err \<Rightarrow> p | Inr t \<Rightarrow> t) (enumerate 0 points))"
proof -
  have "map (\<lambda>(i, p). translatePoint (tnet i (langCode lang) p) p) (enumerate 0 points) =
        map Inr (map (\<lambda>(i, p). case translatePoint_try (tnet i (langCode lang) p) p of
                           Inl err \<Rightarrow> p | Inr t \<Rightarrow> t) (enumerate 0 points))"
    by (simp add: translatePoint_eq split_def)
  then show ?thesis by (simp only: translate_def promise_all_Inr sum.case)
qed

lemma those_eq_None: "those xs = None \<longleftrightarrow> None \<in> set xs"
  by (induction xs) (auto split: option.splits)

lemma those_map_Some: "those (map (\<lambda>x. Some (f x)) xs) = Some (map f xs)"
  by (induction xs) auto

lemma joined_segments_fails:
  "(\<exists>e. joined_segments d0 = Inl e) \<longleftrightarrow>
     (case d0 of
        JArr segs \<Rightarrow> JNull \<in> set segs \<or> list_ex segment_unprintable segs
      | _ \<Rightarrow> True)"
proof (cases d0)
  case (JArr segs)
  let ?f = "\<lambda>s. case get_index0 s of None \<Rightarrow> Some [] | Some JNull \<Rightarrow> Some []
                                     | Some v \<Rightarrow> js_to_string v"
  have "?f s = None \<longleftrightarrow> segment_unprintable s" for s
    by (auto simp: segment_unprintable_def split: option.splits json.splits)
  then have "None \<in> set (map ?f segs) \<longleftrightarrow> list_ex segment_unprintable segs"
    unfolding list_ex_iff set_map image_iff by metis
  then have A: "those (map ?f segs) = None \<longleftrightarrow> list_ex segment_unprintable segs"
    by (simp only: those_eq_None)
  show ?thesis
  proof (cases "JNull \<in> set segs")
    case True
    then show ?thesis by (simp add: JArr joined_segments_def)
  next
    case False
    show ?thesis
    proof (cases "those (map ?f segs)")
      case None
      with A have "list_ex segment_unprintable segs" by blast
      with None False show ?thesis
        unfolding JArr joined_segments_def json.case by (simp only: option.case if_False) simp
    next
      case (Some parts)
      with A have "\<not> list_ex segment_unprintable segs" by auto
      with Some False show ?thesis
        unfolding JArr joined_segments_def json.case by (simp only: option.case if_False) simp
    qed
  qed
qed (simp_all add: joined_segments_def)

lemma joined_segments_texts:
  "joined_segments (JArr (map (\<lambda>(t, more). JArr (JStr t # more)) segs))
     = Inr (concat (map fst segs))"
proof -
  have 1: "JNull \<notin> set (map (\<lambda>(t, more). JArr (JStr t # more)) segs)" by auto
  have 2: "map (\<lambda>s. case get_index0 s of None \<Rightarrow> Some [] | Some JNull \<Rightarrow> Some []
                                          | Some v \<Rightarrow> js_to_string v)
             (map (\<lambda>(t, more). JArr (JStr t # more)) segs)
           = map (\<lambda>x. Some (fst x)) segs"
    by (simp add: split_def)
  show ?thesis
    unfolding joined_segments_def json.case using 1
    by (simp only: 2 those_map_Some if_False option.case)
qed

lemma item_failed_try:
  assumes "item_failed res"
  shows "(case translatePoint_try res txt of Inl err \<Rightarrow> txt | Inr t \<Rightarrow> t) = txt"
proof (cases "\<exists>st body data d0. res = Response st body (Some data) \<and> ok st \<and> truthy data \<and>
                get_index0 data = Some d0 \<and> truthy d0")
  case True
  then obtain st body data d0 where r: "res = Response st body (Some data)" "ok st"
    "truthy data" "get_index0 data = Some d0" "truthy d0" by blast
  with assms have "case d0 of JArr segs \<Rightarrow> JNull \<in> set segs \<or> list_ex segment_unprintable segs
                    | _ \<Rightarrow> True"
    by (simp add: item_failed_def)
  then obtain e where "joined_segments d0 = Inl e" using joined_segments_fails by blast
  with r show ?thesis by (simp add: translatePoint_try_def truthy_opt_def)
next
  case False
  then show ?thesis
    by (auto simp: translatePoint_try_def truthy_opt_def
        split: fetch_result.splits option.splits sum.splits if_splits)
qed

lemma translatePoint_try_texts:
  assumes "well_formed_utf16 txt" and "ok st"
  shows "translatePoint_try
           (Response st body
              (Some (JArr (JArr (map (\<lambda>(t, more). JArr (JStr t # more)) segs) # rest)))) txt
         = Inr (concat (map fst segs))"
  using assms by (simp add: translatePoint_try_def truthy_opt_def joined_segments_texts)

text \<open>
  C6, as stated, at two answers that are successes of a shape the code does not check:
  a segment that is a string gives its first unit, and no segment gives the empty
  string; neither is the original text.
\<close>

theorem translate_unchecked_shape_counterexample:
  "translate flat_segment [utf16 ''Hello world''] (utf16 ''Spanish'') = Inr [utf16 ''H''] \<and>
   translate no_segment [utf16 ''Hello world''] (utf16 ''Spanish'') = Inr [[]]"
  by (simp add: translate_eq flat_segment_def no_segment_def translatePoint_try_def ok_def
      truthy_opt_def joined_segments_def utf16_def)

text \<open>
  C6, amended. For every batch, endpoint and target language, \<open>translate\<close> resolves
  with an array of the length of the batch. Its element at a position is decided by
  that position's own text and the answer to its own request: the original text
  when the text has a lone surrogate (no request is sent) or the request failed on a
  network error, a status that is not a success, a body that is not JSON, a falsy
  \<open>data\<close>, a missing or falsy \<open>data[0]\<close>, a \<open>data[0]\<close> that is not an array, a \<open>null\<close>
  segment or a segment whose first element has no string form; and, for a success
  whose \<open>data[0]\<close> is an array of segments that begin with a string, those strings
  joined in order. Any other success is read as it is, without a check of its shape.
\<close>

theorem translate_per_item:
  "\<exists>ys. translate tnet points lang = Inr ys \<and> length ys = length points \<and>
      (\<forall>i < length points.
         ys ! i = (case translatePoint_try (tnet i (langCode lang) (points ! i)) (points ! i) of
                     Inl err \<Rightarrow> points ! i | Inr t \<Rightarrow> t) \<and>
         (\<not> well_formed_utf16 (points ! i) \<or> item_failed (tnet i (langCode lang) (points ! i))
            \<longrightarrow> ys ! i = points ! i) \<and>
         (\<forall>st body segs rest.
            well_formed_utf16 (points ! i) \<and> ok st \<and>
            tnet i (langCode lang) (points ! i) =
              Response st body
                (Some (JArr (JArr (map (\<lambda>(t, more). JArr (JStr t # more)) segs) # rest)))
            \<longrightarrow> ys ! i = concat (map fst segs)))"
proof -
  let ?f = "\<lambda>(i, p). case translatePoint_try (tnet i (langCode lang) p) p of
                           Inl err \<Rightarrow> p | Inr t \<Rightarrow> t"
  let ?ys = "map ?f (enumerate 0 points)"
  have 1: "translate tnet points lang = Inr ?ys" by (rule translate_eq)
  have 2: "length ?ys = length points" by simp
  have 3: "?ys ! i = (case translatePoint_try (tnet i (langCode lang) (points ! i)) (points ! i) of
                     Inl err \<Rightarrow> points ! i | Inr t \<Rightarrow> t)" if "i < length points" for i
    using that by (simp add: nth_enumerate_eq)
  have 4: "?ys ! i = points ! i"
    if "i < length points"
      "\<not> well_formed_utf16 (points ! i) \<or> item_failed (tnet i (langCode lang) (points ! i))" for i
  proof (cases "well_formed_utf16 (points ! i)")
    case True
    with that(2) have "item_failed (tnet i (langCode lang) (points ! i))" by simp
    from item_failed_try[OF this] 3[OF that(1)] show ?thesis by simp
  next
    case False
    then have "translatePoint_try (tnet i (langCode lang) (points ! i)) (points ! i) = Inl URIError"
      by (simp add: translatePoint_try_def)
    with 3[OF that(1)] show ?thesis by simp
  qed
  have 5: "?ys ! i = concat (map fst segs)"
    if "i < length points" "well_formed_utf16 (points ! i)" "ok st"
      "tnet i (langCode lang) (points ! i) =
         Response st body
           (Some (JArr (JArr (map (\<lambda>(t, more). JArr (JStr t # more)) segs) # rest)))"
    for i st body segs rest
    using 3[OF that(1)] translatePoint_try_texts[OF that(2) that(3), of body segs rest] that(4)
    by simp
  from 1 2 3 4 5 show ?thesis by blast
qed

theorem translate_per_item_witness:
  "translate second_fails example_batch (utf16 ''Spanish'') =
     Inr [utf16 ''T'', utf16 ''Subtitle'', utf16 ''Punto A'', utf16 ''Punto B''] \<and>
   langCode (utf16 ''Spanish'') = Code (utf16 ''es'') \<and>
   langCode (utf16 ''Klingon'') = Code (utf16 ''hi'') \<and>
   langCode (utf16 ''toString'') = Inherited (utf16 ''toString'') \<and>
   item_failed (second_fails 1 (Code (utf16 ''es'')) (utf16 ''Subtitle''))"
proof -
  have lo: "langCode (utf16 ''Klingon'') = Code (utf16 ''hi'')"
    "langCode (utf16 ''toString'') = Inherited (utf16 ''toString'')"
    by (simp_all add: langCode_def langMap_def object_prototype_names_def utf16_def)
  have lc: "langCode (utf16 ''Spanish'') = Code (utf16 ''es'')"
    by (simp add: langCode_def langMap_def utf16_def)
  from translate_per_item[of second_fails example_batch "utf16 ''Spanish''"]
  obtain ys where ys: "translate second_fails example_batch (utf16 ''Spanish'') = Inr ys"
    and len: "length ys = length example_batch"
    and el: "\<forall>i < length example_batch.
         ys ! i = (case translatePoint_try (second_fails i (Code (utf16 ''es'')) (example_batch ! i))
                          (example_batch ! i) of
                     Inl err \<Rightarrow> example_batch ! i | Inr t \<Rightarrow> t) \<and>
         (\<not> well_formed_utf16 (example_batch ! i) \<or>
          item_failed (second_fails i (Code (utf16 ''es'')) (example_batch ! i))
            \<longrightarrow> ys ! i = example_batch ! i) \<and>
         (\<forall>st body segs rest.
            well_formed_utf16 (example_batch ! i) \<and> ok st \<and>
            second_fails i (Code (utf16 ''es'')) (example_batch ! i) =
              Response st body
                (Some (JArr (JArr (map (\<lambda>(t, more). JArr (JStr t # more)) segs) # rest)))
            \<longrightarrow> ys ! i = concat (map fst segs))"
    unfolding lc by blast
  have lb: "length example_batch = 4" by (simp add: example_batch_def)
  have l4: "length ys = 4" using len lb by simp
  have i: "(0::nat) < length example_batch" "(1::nat) < length example_batch"
    "(2::nat) < length example_batch" "(3::nat) < length example_batch"
    by (simp_all add: lb)
  have b: "example_batch ! 0 = utf16 ''Title''" "example_batch ! 1 = utf16 ''Subtitle''"
    "example_batch ! 2 = utf16 ''Point A''" "example_batch ! 3 = utf16 ''Point B''"
    by (simp_all add: example_batch_def)
  have w: "well_formed_utf16 (utf16 ''Title'')" "well_formed_utf16 (utf16 ''Point A'')"
    "well_formed_utf16 (utf16 ''Point B'')"
    by (simp_all add: utf16_def)
  have k: "ok 200" by (simp add: ok_def)
  have f: "item_failed (second_fails 1 (Code (utf16 ''es'')) (utf16 ''Subtitle''))"
    by (simp add: item_failed_def second_fails_def ok_def)
  have fail: "ys ! n = example_batch ! n"
    if "n < length example_batch"
      "item_failed (second_fails n (Code (utf16 ''es'')) (example_batch ! n))" for n
    using el that by blast
  have pos: "ys ! n = concat (map fst segs)"
    if "n < length example_batch" "well_formed_utf16 (example_batch ! n)" "ok st"
      "second_fails n (Code (utf16 ''es'')) (example_batch ! n) =
         Response st body
           (Some (JArr (JArr (map (\<lambda>(t, more). JArr (JStr t # more)) segs) # rest)))"
    for n st body segs rest
    using el that by blast
  from fail[OF i(2), unfolded b] f have e1: "ys ! 1 = utf16 ''Subtitle''" by blast
  have r0: "second_fails 0 (Code (utf16 ''es'')) (utf16 ''Title'') =
      Response 200 []
        (Some (JArr (JArr (map (\<lambda>(t, more). JArr (JStr t # more))
                             [(utf16 ''T'', [JStr (utf16 ''Title'')])])
                     # [JNull, JStr (utf16 ''en'')])))"
    by (simp add: second_fails_def gtx_body_def utf16_def)
  have r2: "second_fails 2 (Code (utf16 ''es'')) (utf16 ''Point A'') =
      Response 200 []
        (Some (JArr (JArr (map (\<lambda>(t, more). JArr (JStr t # more))
                             [(utf16 ''Punto '', [JStr (utf16 ''Point '')]),
                              (utf16 ''A'', [JStr (utf16 ''A'')])])
                     # [JNull, JStr (utf16 ''en'')])))"
    by (simp add: second_fails_def gtx_body_def utf16_def)
  have r3: "second_fails 3 (Code (utf16 ''es'')) (utf16 ''Point B'') =
      Response 200 []
        (Some (JArr (JArr (map (\<lambda>(t, more). JArr (JStr t # more))
                             [(utf16 ''Punto '', [JStr (utf16 ''Point '')]),
                              (utf16 ''B'', [JStr (utf16 ''B'')])])
                     # [JNull, JStr (utf16 ''en'')])))"
    by (simp add: second_fails_def gtx_body_def utf16_def)
  from pos[OF i(1), of 200 "[]"] w(1) k r0
  have "ys ! 0 = concat (map fst [(utf16 ''T'', [JStr (utf16 ''Title'')])])"
    unfolding b by blast
  then have e0: "ys ! 0 = utf16 ''T''" by simp
  from pos[OF i(3), of 200 "[]"] w(2) k r2
  have "ys ! 2 = concat (map fst [(utf16 ''Punto '', [JStr (utf16 ''Point '')]),
                                  (utf16 ''A'', [JStr (utf16 ''A'')])])"
    unfolding b by blast
  then have e2: "ys ! 2 = utf16 ''Punto A''" by (simp add: utf16_def)
  from pos[OF i(4), of 200 "[]"] w(3) k r3
  have "ys ! 3 = concat (map fst [(utf16 ''Punto '', [JStr (utf16 ''Point '')]),
                                  (utf16 ''B'', [JStr (utf16 ''B'')])])"
    unfolding b by blast
  then have e3: "ys ! 3 = utf16 ''Punto B''" by (simp add: utf16_def)
  have "ys = [utf16 ''T'', utf16 ''Subtitle'', utf16 ''Punto A'', utf16 ''Punto B'']"
  proof (rule nth_equalityI)
    show "length ys = length [utf16 ''T'', utf16 ''Subtitle'', utf16 ''Punto A'', utf16 ''Punto B'']"
      using l4 by simp
  next
    fix n assume "n < length ys"
    with l4 have "n = 0 \<or> n = 1 \<or> n = 2 \<or> n = 3" by arith
    with e0 e1 e2 e3
    show "ys ! n = [utf16 ''T'', utf16 ''Subtitle'', utf16 ''Punto A'', utf16 ''Punto B''] ! n"
      by auto
  qed
  with ys lc lo f show ?thesis by simp
qed

section \<open>The session cache\<close>

lemma same_cache_refl [simp]: "same_cache st st"
  by (simp add: same_cache_def)

lemma same_cache_reset [simp]: "same_cache st (resetTranslateButton st') \<longleftrightarrow> same_cache st st'"
  by (simp add: same_cache_def resetTranslateButton_def)

lemma same_cache_displayPoints [simp]: "same_cache st (displayPoints pts st') \<longleftrightarrow> same_cache st st'"
  by (simp add: displayPoints_def) (simp add: same_cache_def)

lemma same_cache_showError [simp]: "same_cache st (showError b n st') \<longleftrightarrow> same_cache st st'"
  by (simp add: showError_def) (simp add: same_cache_def)

lemma same_cache_showNoArticle [simp]: "same_cache st (showNoArticle b st') \<longleftrightarrow> same_cache st st'"
  by (simp add: showNoArticle_def) (simp add: same_cache_def)

lemma same_cache_initializeSummarizer [simp]:
  "same_cache st (initializeSummarizer b st') \<longleftrightarrow> same_cache st st'"
  by (simp add: initializeSummarizer_def same_cache_def Let_def split: option.splits prod.splits)

lemma same_cache_updates [simp]:
  "same_cache st (st'\<lparr>currentSummaryPoints := x\<rparr>) \<longleftrightarrow> same_cache st st'"
  "same_cache st (st'\<lparr>content := c\<rparr>) \<longleftrightarrow> same_cache st st'"
  "same_cache st (st'\<lparr>headerTitle := t\<rparr>) \<longleftrightarrow> same_cache st st'"
  "same_cache st (st'\<lparr>headerSubtitle := t\<rparr>) \<longleftrightarrow> same_cache st st'"
  "same_cache st (st'\<lparr>translateBtn := l\<rparr>) \<longleftrightarrow> same_cache st st'"
  by (simp_all add: same_cache_def)

lemma same_cache_get: "same_cache st st' \<Longrightarrow> cache_get k st' = cache_get k st"
  unfolding same_cache_def cache_get_def by (elim conjE) (simp only:)

lemma handleTranslate_same_cache: "same_cache st (handleTranslate b st)"
  by (simp add: handleTranslate_def Let_def split: option.splits prod.splits sum.splits)

lemma sanitize_example_point: "sanitize example_point = [example_point]"
  by (simp add: example_point_def pipeline_defs)

lemma summarized_page_eq:
  "summarized_page =
     \<lparr>summarizer = Some \<lparr>groqApiKey = Some (utf16 ''gsk_test''), geminiApiKey = None\<rparr>,
      currentSummaryPoints = [example_point],
      cachedUrl = Some (utf16 ''https://example.org/a''),
      cachedSummary = Some [example_point],
      cachedTitle = Some (utf16 ''News''),
      content = SummaryList [example_point],
      headerTitle = english_title, headerSubtitle = english_subtitle,
      translateBtn = HindiLabel\<rparr>"
proof -
  have ne: "example_point \<noteq> []" by (simp add: example_point_def utf16_def)
  have av: "isGroqAvailable \<lparr>groqApiKey = Some (utf16 ''gsk_test''), geminiApiKey = None\<rparr>"
    by (simp add: isGroqAvailable_def utf16_def trim_def is_ws_def)
  have k: "utf16 ''gsk_test'' \<noteq> []" by (simp add: utf16_def)
  show ?thesis
    by (simp add: summarized_page_def displaySummary_def example_browser_def initial_page_def
        cache_get_def initializeSummarizer_def or_null_def k Let_def summarize_def av
        summarizeWithGroq_answers[OF ne] sanitize_example_point display_result_def
        cache_put_def displayPoints_def resetTranslateButton_def)
qed


lemma translate_header_and_points:
  "\<exists>ht hs tr. translate tnet (a # b # pts) lang = Inr (ht # hs # tr) \<and> length tr = length pts"
  by (simp add: translate_eq)

lemma handleTranslate_list:
  assumes "summarizer st = Some s" and "currentSummaryPoints st \<noteq> []"
    and "content st = SummaryList shown"
    and "translate (translate_fetch b)
           ([headerTitle st, headerSubtitle st] @ currentSummaryPoints st) (utf16 ''Hindi'')
         = Inr (ht # hs # tr)"
  shows "currentSummaryPoints (handleTranslate b st) = tr"
    and "content (handleTranslate b st) = SummaryList tr"
  using assms
  by (simp_all add: handleTranslate_def content_to_translate_def Let_def displayPoints_def
      resetTranslateButton_def)

lemma display_result_empty:
  assumes "summaryPoints = None \<or> summaryPoints = Some []"
  shows "same_cache st (display_result b a summaryPoints st)"
    and "content (display_result b a summaryPoints st) = ErrorBox (error_innerText b CouldNotGenerate)"
  using assms by (auto simp: display_result_def showError_def resetTranslateButton_def)

lemma display_result_cache:
  "cachedSummary st \<noteq> Some [] \<Longrightarrow> cachedSummary (display_result b a summaryPoints st) \<noteq> Some []"
  by (auto simp: display_result_def showError_def resetTranslateButton_def displayPoints_def
      cache_put_def split: option.splits)

lemma cachedSummary_initializeSummarizer [simp]:
  "cachedSummary (initializeSummarizer b st) = cachedSummary st"
  using same_cache_initializeSummarizer[of st b st] by (simp add: same_cache_def)

lemma cachedSummary_shown [simp]:
  "cachedSummary (showError b n st) = cachedSummary st"
  "cachedSummary (showNoArticle b st) = cachedSummary st"
  "cachedSummary (displayPoints pts st) = cachedSummary st"
  by (simp_all add: showError_def showNoArticle_def displayPoints_def resetTranslateButton_def)

lemma displaySummary_cache:
  assumes "cachedSummary st \<noteq> Some []"
  shows "cachedSummary (displaySummary b st) \<noteq> Some []"
proof (cases "cache_get (href b) st")
  case (Some e)
  then show ?thesis using assms
    by (simp add: displaySummary_def split: prod.splits)
next
  case None
  define st1 where "st1 = (if summarizer st = None then initializeSummarizer b st else st)"
  have c1: "cachedSummary st1 \<noteq> Some []" using assms by (simp add: st1_def)
  have "cachedSummary (displaySummary b st) = cachedSummary st1 \<or>
        (\<exists>a pts. cachedSummary (displaySummary b st)
                    = cachedSummary (display_result b a (Some pts) st1))"
    unfolding displaySummary_def None st1_def[symmetric] Let_def
    by (auto split: option.splits sum.splits)
  with c1 display_result_cache[OF c1] show ?thesis by auto
qed

lemma reachable_cache: "reachable st \<Longrightarrow> cachedSummary st \<noteq> Some []"
proof (induction rule: reachable.induct)
  case init
  show ?case by (simp add: initial_page_def)
next
  case (reload st b)
  then show ?case by simp
next
  case (display st b)
  from display.IH show ?case by (rule displaySummary_cache)
next
  case (translated st b)
  with handleTranslate_same_cache[of st b] show ?case by (simp add: same_cache_def)
qed

lemma displaySummary_empty:
  assumes "cache_get (href b) st = None" and "summarizer st = Some s"
    and "extractArticle b = Some a"
    and "fst (summarize s (providers b) (article_text a) (article_title a)) = Inr []"
  shows "same_cache st (displaySummary b st)"
    and "content (displaySummary b st) = ErrorBox (error_innerText b CouldNotGenerate)"
  using assms display_result_empty[where summaryPoints = "Some []" and st = st and b = b and a = a]
  by (simp_all add: displaySummary_def Let_def)

text \<open>
  C7. The cache is one slot: after a put for a page, a get for any other page is
  absent; after a put for one page and a put for another, a get for the first is
  absent, and the state is the one the second put alone gives; a get for a page
  other than the stored one is absent in every state.
\<close>

theorem single_slot_cache:
  "(k' \<noteq> k \<longrightarrow> cache_get k' (cache_put k t p st) = None) \<and>
   (a \<noteq> b \<longrightarrow> cache_get a (cache_put b t2 p2 (cache_put a t1 p1 st)) = None) \<and>
   cache_put b t2 p2 (cache_put a t1 p1 st) = cache_put b t2 p2 st \<and>
   (cachedUrl st \<noteq> Some k \<longrightarrow> cache_get k st = None)"
  by (simp add: cache_get_def cache_put_def split: option.splits)

theorem single_slot_cache_witness:
  "cache_get (utf16 ''urlB'') (cache_put (utf16 ''urlA'') (utf16 ''News'') [example_point] initial_page) = None \<and>
   cache_get (utf16 ''urlA'')
     (cache_put (utf16 ''urlB'') (utf16 ''Other'') [example_point]
        (cache_put (utf16 ''urlA'') (utf16 ''News'') [example_point] initial_page)) = None \<and>
   cache_get (utf16 ''urlA'') (cache_put (utf16 ''urlA'') (utf16 ''News'') [example_point] initial_page)
     = Some (utf16 ''News'', [example_point])"
proof -
  have ne: "utf16 ''urlB'' \<noteq> utf16 ''urlA''" "utf16 ''urlA'' \<noteq> utf16 ''urlB''"
    by (simp_all add: utf16_def)
  have g: "cache_get (utf16 ''urlA'') (cache_put (utf16 ''urlA'') (utf16 ''News'') [example_point] initial_page)
     = Some (utf16 ''News'', [example_point])"
    by (simp add: cache_get_def cache_put_def utf16_def)
  from single_slot_cache[of "utf16 ''urlB''" "utf16 ''urlA''" "utf16 ''News''" "[example_point]" initial_page
      "utf16 ''urlA''" "utf16 ''urlB''" "utf16 ''Other''" "[example_point]" "utf16 ''News''" "[example_point]"]
    ne g show ?thesis by blast
qed


text \<open>
  C2, as stated, after a summary and a translation of its one point: the cache still
  holds the original point, the panel and \<open>currentSummaryPoints\<close> hold the translated
  one, and the next \<open>displaySummary\<close> on the page shows the original again.
\<close>

theorem translate_keeps_cache_counterexample:
  "cachedSummary (handleTranslate example_browser summarized_page) = Some [example_point] \<and>
   currentSummaryPoints (handleTranslate example_browser summarized_page) = [utf16 ''HI''] \<and>
   content (handleTranslate example_browser summarized_page) = SummaryList [utf16 ''HI''] \<and>
   cache_get (href example_browser) (handleTranslate example_browser summarized_page)
     = Some (utf16 ''News'', [example_point]) \<and>
   content (displaySummary example_browser (handleTranslate example_browser summarized_page))
     = SummaryList [example_point]"
proof -
  let ?st = "handleTranslate example_browser summarized_page"
  have w: "well_formed_utf16 english_title" "well_formed_utf16 english_subtitle"
    "well_formed_utf16 example_point"
    by (simp_all add: english_title_def english_subtitle_def example_point_def utf16_def)
  have tp: "translatePoint (always_hi i code t) t = Inr (utf16 ''HI'')"
    if "well_formed_utf16 t" for i code t
    using that
    by (simp add: translatePoint_def translatePoint_try_def always_hi_def ok_def truthy_opt_def
        joined_segments_def)
  have tr: "translate always_hi [english_title, english_subtitle, example_point] (utf16 ''Hindi'')
        = Inr [utf16 ''HI'', utf16 ''HI'', utf16 ''HI'']"
    by (simp add: translate_def enumerate_eq_zip tp w upt_rec)
  have sc: "same_cache summarized_page ?st" by (rule handleTranslate_same_cache)
  have c: "cachedSummary ?st = Some [example_point]"
    using sc by (simp add: same_cache_def summarized_page_eq)
  have g0: "cache_get (href example_browser) summarized_page = Some (utf16 ''News'', [example_point])"
    by (simp add: cache_get_def summarized_page_eq example_browser_def utf16_def)
  have g: "cache_get (href example_browser) ?st = Some (utf16 ''News'', [example_point])"
    using same_cache_get[OF sc] g0 by simp
  have ne: "example_point \<noteq> []" by (simp add: example_point_def utf16_def)
  have cur: "currentSummaryPoints ?st = [utf16 ''HI'']" and con: "content ?st = SummaryList [utf16 ''HI'']"
    by (simp_all add: handleTranslate_def summarized_page_eq content_to_translate_def Let_def
        example_browser_def tr displayPoints_def resetTranslateButton_def)
  have d: "content (displaySummary example_browser ?st) = SummaryList [example_point]"
    by (simp add: displaySummary_def g displayPoints_def resetTranslateButton_def)
  from c cur con g d show ?thesis by blast
qed

text \<open>
  C2, amended. \<open>handleTranslate\<close> leaves \<open>cachedUrl\<close>, \<open>cachedSummary\<close> and
  \<open>cachedTitle\<close> as they are, so every cache read gives what it gave before. When the
  panel shows a list and there are current points, the translation succeeds, and
  \<open>currentSummaryPoints\<close> and the list shown become the translated points, one for
  each point.
\<close>

theorem translate_replaces_current_points:
  "cachedUrl (handleTranslate b st) = cachedUrl st \<and>
   cachedSummary (handleTranslate b st) = cachedSummary st \<and>
   cachedTitle (handleTranslate b st) = cachedTitle st \<and>
   cache_get k (handleTranslate b st) = cache_get k st \<and>
   (summarizer st \<noteq> None \<and> currentSummaryPoints st \<noteq> [] \<and> content st = SummaryList shown \<longrightarrow>
      (\<exists>ht hs tr.
         translate (translate_fetch b)
           ([headerTitle st, headerSubtitle st] @ currentSummaryPoints st) (utf16 ''Hindi'')
           = Inr (ht # hs # tr) \<and>
         length tr = length (currentSummaryPoints st) \<and>
         currentSummaryPoints (handleTranslate b st) = tr \<and>
         content (handleTranslate b st) = SummaryList tr))"
proof -
  have sc: "same_cache st (handleTranslate b st)" by (rule handleTranslate_same_cache)
  have "\<exists>ht hs tr.
         translate (translate_fetch b)
           ([headerTitle st, headerSubtitle st] @ currentSummaryPoints st) (utf16 ''Hindi'')
           = Inr (ht # hs # tr) \<and>
         length tr = length (currentSummaryPoints st) \<and>
         currentSummaryPoints (handleTranslate b st) = tr \<and>
         content (handleTranslate b st) = SummaryList tr"
    if a: "summarizer st \<noteq> None" "currentSummaryPoints st \<noteq> []" "content st = SummaryList shown"
  proof -
    from a(1) obtain s where s: "summarizer st = Some s" by auto
    from translate_header_and_points[of "translate_fetch b" "headerTitle st" "headerSubtitle st"
        "currentSummaryPoints st" "utf16 ''Hindi''"]
    obtain ht hs tr where t: "translate (translate_fetch b)
           ([headerTitle st, headerSubtitle st] @ currentSummaryPoints st) (utf16 ''Hindi'')
           = Inr (ht # hs # tr)" and l: "length tr = length (currentSummaryPoints st)"
      by auto
    from handleTranslate_list[OF s a(2) a(3) t] t l show ?thesis by blast
  qed
  with sc same_cache_get[OF sc, of k] show ?thesis by (simp add: same_cache_def)
qed

theorem translate_replaces_current_points_witness:
  "cachedSummary (handleTranslate example_browser summarized_page) = cachedSummary summarized_page \<and>
   summarizer summarized_page \<noteq> None \<and> currentSummaryPoints summarized_page \<noteq> [] \<and>
   content summarized_page = SummaryList [example_point] \<and>
   length (currentSummaryPoints (handleTranslate example_browser summarized_page)) = 1"
proof -
  have a: "summarizer summarized_page \<noteq> None" "currentSummaryPoints summarized_page \<noteq> []"
    "content summarized_page = SummaryList [example_point]"
    by (simp_all add: summarized_page_eq)
  have l: "length (currentSummaryPoints summarized_page) = 1" by (simp add: summarized_page_eq)
  from translate_replaces_current_points[of example_browser summarized_page _ "[example_point]"] a l
  show ?thesis by auto
qed


text \<open>
  C10. In every state the script can reach, the cached summary is not the empty
  array. When \<open>summaryPoints\<close> is falsy or empty, the handler shows the error box
  and leaves \<open>cachedUrl\<close>, \<open>cachedSummary\<close> and \<open>cachedTitle\<close> unchanged; so does
  \<open>displaySummary\<close> as a whole when \<open>summarize\<close> resolves with the empty array.
\<close>

theorem cache_entry_nonempty:
  "(reachable st \<longrightarrow> cachedSummary st \<noteq> Some []) \<and>
   (summaryPoints = None \<or> summaryPoints = Some [] \<longrightarrow>
      cachedUrl (display_result b a summaryPoints st) = cachedUrl st \<and>
      cachedSummary (display_result b a summaryPoints st) = cachedSummary st \<and>
      cachedTitle (display_result b a summaryPoints st) = cachedTitle st \<and>
      content (display_result b a summaryPoints st) = ErrorBox (error_innerText b CouldNotGenerate)) \<and>
   (cache_get (href b) st = None \<and> summarizer st = Some s \<and> extractArticle b = Some a \<and>
    fst (summarize s (providers b) (article_text a) (article_title a)) = Inr [] \<longrightarrow>
      cachedUrl (displaySummary b st) = cachedUrl st \<and>
      cachedSummary (displaySummary b st) = cachedSummary st \<and>
      cachedTitle (displaySummary b st) = cachedTitle st \<and>
      content (displaySummary b st) = ErrorBox (error_innerText b CouldNotGenerate))"
  using reachable_cache[of st]
    display_result_empty[where summaryPoints = summaryPoints and st = st and b = b and a = a]
    displaySummary_empty[where b = b and st = st and s = s and a = a]
  unfolding same_cache_def by blast

theorem cache_entry_nonempty_witness:
  "reachable summarized_page \<and> cachedSummary summarized_page = Some [example_point] \<and>
   cachedSummary summarized_page \<noteq> Some [] \<and>
   cachedUrl (displaySummary short_browser summarized_page) = Some (utf16 ''https://example.org/a'') \<and>
   cachedSummary (displaySummary short_browser summarized_page) = Some [example_point] \<and>
   content (displaySummary short_browser summarized_page) = ErrorBox (utf16 ''Setup Required'') \<and>
   cachedSummary
     (display_result short_browser
        \<lparr>article_title = utf16 ''News'', article_text = utf16 ''Body''\<rparr> None summarized_page)
     = Some [example_point]"
proof -
  have r: "reachable summarized_page"
    unfolding summarized_page_def by (intro reachable.display reachable.init)
  have g: "cache_get (href short_browser) summarized_page = None"
    by (simp add: cache_get_def short_browser_def summarized_page_eq utf16_def)
  have s: "summarizer summarized_page
             = Some \<lparr>groqApiKey = Some (utf16 ''gsk_test''), geminiApiKey = None\<rparr>"
    by (simp add: summarized_page_eq)
  have a: "extractArticle short_browser
             = Some \<lparr>article_title = utf16 ''News'', article_text = utf16 ''Body''\<rparr>"
    by (simp add: short_browser_def example_browser_def)
  have av: "isGroqAvailable \<lparr>groqApiKey = Some (utf16 ''gsk_test''), geminiApiKey = None\<rparr>"
    by (simp add: isGroqAvailable_def utf16_def trim_def is_ws_def)
  have ne: "utf16 ''Too short.'' \<noteq> []" by (simp add: utf16_def)
  have z: "sanitize (utf16 ''Too short.'') = []" by (simp add: pipeline_defs)
  have e: "fst (summarize \<lparr>groqApiKey = Some (utf16 ''gsk_test''), geminiApiKey = None\<rparr>
                 (providers short_browser) (utf16 ''Body'') (utf16 ''News'')) = Inr []"
    by (simp add: summarize_def av short_browser_def summarizeWithGroq_answers[OF ne] z)
  have e': "fst (summarize \<lparr>groqApiKey = Some (utf16 ''gsk_test''), geminiApiKey = None\<rparr>
                 (providers short_browser)
                 (article_text \<lparr>article_title = utf16 ''News'', article_text = utf16 ''Body''\<rparr>)
                 (article_title \<lparr>article_title = utf16 ''News'', article_text = utf16 ''Body''\<rparr>)) = Inr []"
    using e by simp
  have t: "error_innerText short_browser CouldNotGenerate = utf16 ''Setup Required''"
    by (simp add: short_browser_def example_browser_def)
  from cache_entry_nonempty[where st = summarized_page and summaryPoints = None
      and b = short_browser
      and a = "\<lparr>article_title = utf16 ''News'', article_text = utf16 ''Body''\<rparr>"
      and s = "\<lparr>groqApiKey = Some (utf16 ''gsk_test''), geminiApiKey = None\<rparr>"]
    r g s a e' t
  show ?thesis by (simp add: summarized_page_eq)
qed

end
